theory Spec2Isabelle
  imports Main "HOL-Library.Word" "HOL-Library.Signed_Division"
begin

section \<open>Data model\<close>

text \<open>
  \<open>rcutils_time_point_value_t\<close> is \<open>int64_t\<close> (time.h): a 64-bit word, read as two's
  complement by \<open>sint\<close> and compared by the signed orders \<open>\<le>s\<close> and \<open><s\<close>. Arithmetic
  on it wraps around, which is what the hardware does where C leaves signed overflow open.
  \<open>struct timespec\<close> is taken on an LP64 platform: \<open>tv_sec\<close> and \<open>tv_nsec\<close> are 64 bits wide.
\<close>

type_synonym int64 = "64 word"
type_synonym rcutils_time_point_value_t = int64

text \<open>Threads are named by a number; an address is a number, and \<open>None\<close> is the null pointer.\<close>

type_synonym tid = nat
type_synonym addr = nat

definition INT64_MAX :: int64 where
  "INT64_MAX = 0x7FFFFFFFFFFFFFFF"

definition INT64_MIN :: int64 where
  "INT64_MIN = 0x8000000000000000"

text \<open>C's \<open>/\<close> and \<open>%\<close> on \<open>int64_t\<close> truncate towards zero.\<close>

definition sdiv64 :: "int64 \<Rightarrow> int64 \<Rightarrow> int64" where
  "sdiv64 a b = word_of_int (sint a sdiv sint b)"

definition smod64 :: "int64 \<Rightarrow> int64 \<Rightarrow> int64" where
  "smod64 a b = word_of_int (sint a smod sint b)"

text \<open>
  Modelled from the spec: the status codes of \<open>rcutils/types.h\<close>, which is not among the
  sources. The spec's error kinds are InvalidArgument, Overflow, NonMonotonicSteadyTime,
  BadAllocation and UnspecifiedError; the constructors carry the names the code uses.
\<close>

datatype rcutils_ret_t =
    RCUTILS_RET_OK
  | RCUTILS_RET_ERROR
  | RCUTILS_RET_BAD_ALLOC
  | RCUTILS_RET_INVALID_ARGUMENT
  | RCUTILS_CALCULATION_OVERFLOW
  | RCUTILS_NON_MONOTONIC_STEADY_TIME

text \<open>
  What a pthread call returns: \<open>0\<close>, one of the three \<open>errno\<close> values the code tests for,
  or any other value.
\<close>

datatype errno_t = ESUCCESS | EAGAIN | ENOMEM | EINVAL | EOTHER

text \<open>
  Modelled from the spec: \<open>rcutils_allocator_t\<close> (AllocatorPort) bundles an allocate
  function, a deallocate function and an opaque state. Here an allocator is known by a
  number; what its \<open>allocate\<close> returns is an input of the call that allocates.
\<close>

type_synonym rcutils_allocator_t = nat

definition rcutils_get_default_allocator :: rcutils_allocator_t where
  "rcutils_get_default_allocator = 0"

text \<open>The two preprocessor switches that select the code compiled.\<close>

record build_config =
  RCUTILS_DISABLE_TIME_SANITY_CHECKS :: bool
  RCUTILS_THREAD_LOCAL_PTHREAD :: bool

record timespec =
  tv_sec :: int64
  tv_nsec :: int64

text \<open>\<open>__last_steady_timestamp_storage_t\<close> of time_common.c.\<close>

record last_steady_timestamp_storage_t =
  timestamp :: int64
  self_allocator :: rcutils_allocator_t

text \<open>
  The state the functions read and write:
  \<^item> \<open>mem\<close>: the caller's memory, where the output destination \<open>now\<close> points;
  \<^item> \<open>error_msg\<close>: the thread-scoped error state written by \<open>RCUTILS_SET_ERROR_MSG\<close>;
  \<^item> \<open>last_steady_timestamp\<close>: the \<open>_Thread_local\<close> variable \<open>__last_steady_timestamp\<close>,
    one value per thread;
  \<^item> \<open>key_init_once\<close>: whether \<open>pthread_once\<close> has run its routine for \<open>__key_init_once\<close>;
  \<^item> \<open>make_pthread_keys_ret\<close>: the static \<open>__make_pthread_keys_ret\<close>;
  \<^item> \<open>specific\<close>: the value each thread has stored under
    \<open>__last_steady_timestamp_storage_key\<close> once \<open>pthread_key_create\<close> has set it, null
    for a thread that has stored nothing;
  \<^item> \<open>key_zero_specific\<close>: the value each thread has under the key that the
    zero-initialised static \<open>__last_steady_timestamp_storage_key\<close> names before
    \<open>pthread_key_create\<close> has set it: null, or the pointer another module of the
    process has stored under that key;
  \<^item> \<open>heap\<close>: the contents of the cells obtained from allocators, \<open>live\<close> the addresses
    allocated and not yet released. Reading a released cell gives its last contents;
  \<^item> \<open>released\<close>: every call of an allocator's \<open>deallocate\<close>, in order.
\<close>

record world =
  mem :: "addr \<Rightarrow> int64"
  error_msg :: "tid \<Rightarrow> string option"
  last_steady_timestamp :: "tid \<Rightarrow> int64"
  key_init_once :: bool
  make_pthread_keys_ret :: rcutils_ret_t
  specific :: "tid \<Rightarrow> addr option"
  key_zero_specific :: "tid \<Rightarrow> addr option"
  heap :: "addr \<Rightarrow> last_steady_timestamp_storage_t"
  live :: "addr set"
  released :: "(addr \<times> rcutils_allocator_t) list"

text \<open>The state of a process that has called nothing yet.\<close>

definition world_init :: world where
  "world_init =
     \<lparr> mem = (\<lambda>_. 0),
       error_msg = (\<lambda>_. None),
       last_steady_timestamp = (\<lambda>_. INT64_MIN),
       key_init_once = False,
       make_pthread_keys_ret = RCUTILS_RET_OK,
       specific = (\<lambda>_. None),
       key_zero_specific = (\<lambda>_. None),
       heap = (\<lambda>_. \<lparr> timestamp = 0, self_allocator = 0 \<rparr>),
       live = {},
       released = [] \<rparr>"

section \<open>Collaborators\<close>

text \<open>
  Modelled from the spec: \<open>RCUTILS_SET_ERROR_MSG\<close> of \<open>rcutils/error_handling.h\<close>
  (ErrorPort), which records a message for the calling thread.
\<close>

definition RCUTILS_SET_ERROR_MSG :: "tid \<Rightarrow> string \<Rightarrow> world \<Rightarrow> world" where
  "RCUTILS_SET_ERROR_MSG t msg s = s\<lparr>error_msg := (error_msg s)(t := Some msg)\<rparr>"

text \<open>
  The pthread primitives. Each takes the value it returns as an input. A call that
  returns non-zero changes nothing; \<open>pthread_once\<close> that returns zero has run the
  routine if and only if no earlier call had.

  The key has been created when \<open>pthread_once\<close> has run \<open>__make_pthread_keys\<close> and
  \<open>__make_pthread_keys_ret\<close> is still \<open>RCUTILS_RET_OK\<close>. Until then the static
  \<open>__last_steady_timestamp_storage_key\<close> is zero, and \<open>pthread_getspecific\<close> and
  \<open>pthread_setspecific\<close> called with it read and write whatever the thread has under
  that key value, \<open>key_zero_specific\<close>. \<open>__ensure_last_steady_timestamp_storage\<close> and
  its callers reach these calls only after the key has been created;
  \<open>__destroy_last_steady_timestamp_storage\<close> calls them without \<open>pthread_once\<close>.
\<close>

definition key_created :: "world \<Rightarrow> bool" where
  "key_created s \<longleftrightarrow> key_init_once s \<and> make_pthread_keys_ret s = RCUTILS_RET_OK"

definition pthread_getspecific :: "tid \<Rightarrow> world \<Rightarrow> addr option" where
  "pthread_getspecific t s = (if key_created s then specific s t else key_zero_specific s t)"

definition pthread_setspecific :: "tid \<Rightarrow> addr option \<Rightarrow> errno_t \<Rightarrow> world \<Rightarrow> world" where
  "pthread_setspecific t v r s =
     (if r = ESUCCESS
      then if key_created s then s\<lparr>specific := (specific s)(t := v)\<rparr>
           else s\<lparr>key_zero_specific := (key_zero_specific s)(t := v)\<rparr>
      else s)"

definition allocator_deallocate :: "addr \<Rightarrow> rcutils_allocator_t \<Rightarrow> world \<Rightarrow> world" where
  "allocator_deallocate p a s =
     s\<lparr>live := live s - {p}, released := released s @ [(p, a)]\<rparr>"

section \<open>time_common.c\<close>

subsection \<open>Thread-local storage through a pthread key\<close>

definition make_pthread_keys :: "tid \<Rightarrow> errno_t \<Rightarrow> world \<Rightarrow> world" where
  "make_pthread_keys t ret s =
     (case ret of
        ESUCCESS \<Rightarrow> s
      | EAGAIN \<Rightarrow>
          (RCUTILS_SET_ERROR_MSG t
             ''The system lacked the necessary resources to create another thread-specific data key, or the system-imposed limit on the total number of keys per process {PTHREAD_KEYS_MAX} has been exceeded.''
             s)\<lparr>make_pthread_keys_ret := RCUTILS_RET_ERROR\<rparr>
      | ENOMEM \<Rightarrow>
          (RCUTILS_SET_ERROR_MSG t ''Insufficient memory exists to create the key.'' s)
            \<lparr>make_pthread_keys_ret := RCUTILS_RET_BAD_ALLOC\<rparr>
      | _ \<Rightarrow>
          (RCUTILS_SET_ERROR_MSG t ''Unexpected error with pthread_key_create'' s)
            \<lparr>make_pthread_keys_ret := RCUTILS_RET_ERROR\<rparr>)"

definition pthread_once :: "tid \<Rightarrow> errno_t \<Rightarrow> errno_t \<Rightarrow> world \<Rightarrow> world" where
  "pthread_once t r key_create s =
     (if r = ESUCCESS \<and> \<not> key_init_once s
      then (make_pthread_keys t key_create s)\<lparr>key_init_once := True\<rparr>
      else s)"

definition set_last_steady_timestamp ::
  "tid \<Rightarrow> addr option \<Rightarrow> errno_t \<Rightarrow> world \<Rightarrow> rcutils_ret_t \<times> world" where
  "set_last_steady_timestamp t last_timestamp pthread_ret s =
     (let s1 = pthread_setspecific t last_timestamp pthread_ret s in
      case pthread_ret of
        ENOMEM \<Rightarrow>
          (RCUTILS_RET_BAD_ALLOC,
           RCUTILS_SET_ERROR_MSG t
             ''pthread_setspecific: Insufficient memory exists to associate the value with the key.''
             s1)
      | EINVAL \<Rightarrow>
          (RCUTILS_RET_ERROR,
           RCUTILS_SET_ERROR_MSG t ''pthread_setspecific: The key value is invalid.'' s1)
      | _ \<Rightarrow> (RCUTILS_RET_OK, s1))"

text \<open>What the calls made by one \<open>__ensure_last_steady_timestamp_storage\<close> return.\<close>

record ensure_env =
  once_ret :: errno_t
  key_create_ret :: errno_t
  allocate_ret :: "addr option"
  setspecific_ret :: errno_t

definition ensure_last_steady_timestamp_storage ::
  "tid \<Rightarrow> rcutils_allocator_t \<Rightarrow> ensure_env \<Rightarrow> world \<Rightarrow> rcutils_ret_t \<times> world" where
  "ensure_last_steady_timestamp_storage t allocator e s =
     (let s1 = pthread_once t (once_ret e) (key_create_ret e) s in
      case once_ret e of
        ESUCCESS \<Rightarrow>
          if make_pthread_keys_ret s1 \<noteq> RCUTILS_RET_OK then (make_pthread_keys_ret s1, s1)
          else
            (case pthread_getspecific t s1 of
               Some p \<Rightarrow> (RCUTILS_RET_OK, s1)
             | None \<Rightarrow>
                 (case allocate_ret e of
                    None \<Rightarrow>
                      (RCUTILS_RET_BAD_ALLOC,
                       RCUTILS_SET_ERROR_MSG t
                         ''failed to allocate thread-local storage for last steady timestamp'' s1)
                  | Some a \<Rightarrow>
                      set_last_steady_timestamp t (Some a) (setspecific_ret e)
                        (s1\<lparr>heap := (heap s1)
                                (a := \<lparr> timestamp = INT64_MIN, self_allocator = allocator \<rparr>),
                            live := insert a (live s1)\<rparr>)))
      | EINVAL \<Rightarrow>
          (RCUTILS_RET_ERROR,
           RCUTILS_SET_ERROR_MSG t
             ''pthread_once: either once_control or init_routine is invalid.'' s1)
      | _ \<Rightarrow> (RCUTILS_RET_ERROR, RCUTILS_SET_ERROR_MSG t ''pthread_once: unknown error'' s1))"

definition destroy_last_steady_timestamp_storage ::
  "tid \<Rightarrow> errno_t \<Rightarrow> world \<Rightarrow> rcutils_ret_t \<times> world" where
  "destroy_last_steady_timestamp_storage t setspecific s =
     (case pthread_getspecific t s of
        Some p \<Rightarrow>
          set_last_steady_timestamp t None setspecific
            (allocator_deallocate p (self_allocator (heap s p)) s)
      | None \<Rightarrow> (RCUTILS_RET_OK, s))"

subsection \<open>The four private functions, in the three builds\<close>

text \<open>
  The functions are compiled from one of three sections: sanity checks disabled; sanity
  checks enabled with \<open>_Thread_local\<close>; sanity checks enabled with pthread keys. The
  getter returns the status on failure (\<open>Inl\<close>) and the value it stores through its
  argument on success (\<open>Inr\<close>). Its argument is the address of a local variable of the
  only caller, so its null check never fires.
\<close>

definition rcutils_time_common_get_last_steady_timestamp_thread_local ::
  "build_config \<Rightarrow> tid \<Rightarrow> ensure_env \<Rightarrow> world \<Rightarrow> (rcutils_ret_t + int64) \<times> world" where
  "rcutils_time_common_get_last_steady_timestamp_thread_local cfg t e s =
     (if RCUTILS_DISABLE_TIME_SANITY_CHECKS cfg then (Inr INT64_MIN, s)
      else if \<not> RCUTILS_THREAD_LOCAL_PTHREAD cfg then (Inr (last_steady_timestamp s t), s)
      else
        (case ensure_last_steady_timestamp_storage t rcutils_get_default_allocator e s of
           (ret, s1) \<Rightarrow>
             if RCUTILS_RET_OK \<noteq> ret then (Inl ret, s1)
             else
               (case pthread_getspecific t s1 of
                  None \<Rightarrow>
                    (Inl RCUTILS_RET_ERROR,
                     RCUTILS_SET_ERROR_MSG t ''pthread_getspecific: unexpectedly returned NULL'' s1)
                | Some p \<Rightarrow> (Inr (timestamp (heap s1 p)), s1))))"

definition rcutils_time_common_set_last_steady_timestamp_thread_local ::
  "build_config \<Rightarrow> tid \<Rightarrow> int64 \<Rightarrow> ensure_env \<Rightarrow> errno_t \<Rightarrow> world \<Rightarrow> rcutils_ret_t \<times> world"
  where
  "rcutils_time_common_set_last_steady_timestamp_thread_local cfg t new_last_steady_timestamp
       e setspecific s =
     (if RCUTILS_DISABLE_TIME_SANITY_CHECKS cfg then (RCUTILS_RET_OK, s)
      else if \<not> RCUTILS_THREAD_LOCAL_PTHREAD cfg
      then (RCUTILS_RET_OK,
            s\<lparr>last_steady_timestamp := (last_steady_timestamp s)(t := new_last_steady_timestamp)\<rparr>)
      else
        (case ensure_last_steady_timestamp_storage t rcutils_get_default_allocator e s of
           (ret, s1) \<Rightarrow>
             if RCUTILS_RET_OK \<noteq> ret then (ret, s1)
             else
               (case pthread_getspecific t s1 of
                  None \<Rightarrow>
                    (RCUTILS_RET_ERROR,
                     RCUTILS_SET_ERROR_MSG t ''pthread_getspecific: unexpectedly returned NULL'' s1)
                | Some p \<Rightarrow>
                    set_last_steady_timestamp t (Some p) setspecific
                      (s1\<lparr>heap := (heap s1)
                              (p := (heap s1 p)\<lparr>timestamp := new_last_steady_timestamp\<rparr>)\<rparr>))))"

definition rcutils_time_common_ensure_last_steady_timestamp ::
  "build_config \<Rightarrow> tid \<Rightarrow> rcutils_allocator_t \<Rightarrow> ensure_env \<Rightarrow> world \<Rightarrow> rcutils_ret_t \<times> world"
  where
  "rcutils_time_common_ensure_last_steady_timestamp cfg t allocator e s =
     (if RCUTILS_DISABLE_TIME_SANITY_CHECKS cfg then (RCUTILS_RET_OK, s)
      else if \<not> RCUTILS_THREAD_LOCAL_PTHREAD cfg then (RCUTILS_RET_OK, s)
      else ensure_last_steady_timestamp_storage t allocator e s)"

definition rcutils_time_common_destroy_last_steady_timestamp ::
  "build_config \<Rightarrow> tid \<Rightarrow> errno_t \<Rightarrow> world \<Rightarrow> rcutils_ret_t \<times> world" where
  "rcutils_time_common_destroy_last_steady_timestamp cfg t setspecific s =
     (if RCUTILS_DISABLE_TIME_SANITY_CHECKS cfg then (RCUTILS_RET_OK, s)
      else if \<not> RCUTILS_THREAD_LOCAL_PTHREAD cfg then (RCUTILS_RET_OK, s)
      else destroy_last_steady_timestamp_storage t setspecific s)"

subsection \<open>The public hooks and the monotonicity check\<close>

definition rcutils_steady_time_now_thread_specific_init ::
  "build_config \<Rightarrow> tid \<Rightarrow> rcutils_allocator_t \<Rightarrow> ensure_env \<Rightarrow> world \<Rightarrow> rcutils_ret_t \<times> world"
  where
  "rcutils_steady_time_now_thread_specific_init cfg t custom_allocator e s =
     rcutils_time_common_ensure_last_steady_timestamp cfg t custom_allocator e s"

definition rcutils_steady_time_now_thread_specific_fini ::
  "build_config \<Rightarrow> tid \<Rightarrow> errno_t \<Rightarrow> world \<Rightarrow> rcutils_ret_t \<times> world" where
  "rcutils_steady_time_now_thread_specific_fini cfg t setspecific s =
     rcutils_time_common_destroy_last_steady_timestamp cfg t setspecific s"

text \<open>
  What the pthread calls made by one monotonicity check return: those of the getter's
  \<open>__ensure_last_steady_timestamp_storage\<close>, those of the setter's, and the setter's
  final \<open>pthread_setspecific\<close>.
\<close>

record check_env =
  get_env :: ensure_env
  set_env :: ensure_env
  set_setspecific_ret :: errno_t

definition rcutils_check_steady_time_monotonicity_thread_local ::
  "build_config \<Rightarrow> tid \<Rightarrow> int64 \<Rightarrow> check_env \<Rightarrow> world \<Rightarrow> rcutils_ret_t \<times> world" where
  "rcutils_check_steady_time_monotonicity_thread_local cfg t current_steady_timestamp e s =
     (case rcutils_time_common_get_last_steady_timestamp_thread_local cfg t (get_env e) s of
        (Inl ret, s1) \<Rightarrow> (ret, s1)
      | (Inr last_steady_sample, s1) \<Rightarrow>
          if current_steady_timestamp <s last_steady_sample
          then (RCUTILS_NON_MONOTONIC_STEADY_TIME,
                RCUTILS_SET_ERROR_MSG t ''non-monotonic steady time'' s1)
          else rcutils_time_common_set_last_steady_timestamp_thread_local cfg t
                 current_steady_timestamp (set_env e) (set_setspecific_ret e) s1)"

section \<open>time_unix.c\<close>

definition WOULD_BE_NEGATIVE :: "int64 \<Rightarrow> int64 \<Rightarrow> bool" where
  "WOULD_BE_NEGATIVE seconds subseconds \<longleftrightarrow> seconds <s 0 \<or> (subseconds <s 0 \<and> seconds = 0)"

definition RCUTILS_S_TO_NS :: "int64 \<Rightarrow> int64" where
  "RCUTILS_S_TO_NS seconds = seconds * (1000 * 1000 * 1000)"

text \<open>
  Modelled from the spec: \<open>RCUTILS_CHECK_ARGUMENT_FOR_NULL\<close> of
  \<open>rcutils/error_handling.h\<close>, which on a null argument reports an error and returns the
  given status (InvalidArgument for a null output destination). This is the state it
  leaves.
\<close>

definition RCUTILS_CHECK_ARGUMENT_FOR_NULL :: "tid \<Rightarrow> string \<Rightarrow> world \<Rightarrow> world" where
  "RCUTILS_CHECK_ARGUMENT_FOR_NULL t argument s =
     RCUTILS_SET_ERROR_MSG t (argument @ '' argument is null'') s"

definition store_now :: "addr \<Rightarrow> int64 \<Rightarrow> world \<Rightarrow> world" where
  "store_now now v s = s\<lparr>mem := (mem s)(now := v)\<rparr>"

text \<open>
  \<open>timespec_now\<close> is the sample the clock call has filled in (\<open>CLOCK_REALTIME\<close> or the
  calendar clock for the system time; \<open>CLOCK_MONOTONIC_RAW\<close>, \<open>CLOCK_MONOTONIC\<close> or the
  system clock for the steady time).
\<close>

definition unix_rcutils_system_time_now ::
  "build_config \<Rightarrow> tid \<Rightarrow> addr option \<Rightarrow> timespec \<Rightarrow> world \<Rightarrow> rcutils_ret_t \<times> world" where
  "unix_rcutils_system_time_now cfg t now timespec_now s =
     (case now of
        None \<Rightarrow> (RCUTILS_RET_INVALID_ARGUMENT, RCUTILS_CHECK_ARGUMENT_FOR_NULL t ''now'' s)
      | Some p \<Rightarrow>
          if WOULD_BE_NEGATIVE (tv_sec timespec_now) (tv_nsec timespec_now)
          then (RCUTILS_RET_ERROR, RCUTILS_SET_ERROR_MSG t ''unexpected negative time'' s)
          else
            (let total_seconds_in_ns = RCUTILS_S_TO_NS (tv_sec timespec_now);
                 total_ns = total_seconds_in_ns + tv_nsec timespec_now
             in if RCUTILS_DISABLE_TIME_SANITY_CHECKS cfg
                then (RCUTILS_RET_OK, store_now p total_ns s)
                else
                  (let overflow_happened =
                         (sdiv64 INT64_MAX 1000000000 <s tv_sec timespec_now);
                       overflow_happened = (overflow_happened \<or>
                         (0 <s tv_nsec timespec_now \<and>
                          INT64_MAX - tv_nsec timespec_now <s total_seconds_in_ns))
                   in if overflow_happened
                      then (RCUTILS_RET_ERROR,
                            RCUTILS_SET_ERROR_MSG t ''system time overflow'' s)
                      else (RCUTILS_RET_OK, store_now p total_ns s))))"

definition unix_rcutils_steady_time_now ::
  "build_config \<Rightarrow> tid \<Rightarrow> addr option \<Rightarrow> timespec \<Rightarrow> check_env \<Rightarrow> world
     \<Rightarrow> rcutils_ret_t \<times> world" where
  "unix_rcutils_steady_time_now cfg t now timespec_now e s =
     (case now of
        None \<Rightarrow> (RCUTILS_RET_INVALID_ARGUMENT, RCUTILS_CHECK_ARGUMENT_FOR_NULL t ''now'' s)
      | Some p \<Rightarrow>
          if WOULD_BE_NEGATIVE (tv_sec timespec_now) (tv_nsec timespec_now)
          then (RCUTILS_RET_ERROR, RCUTILS_SET_ERROR_MSG t ''unexpected negative time'' s)
          else
            (let total_seconds_in_ns = RCUTILS_S_TO_NS (tv_sec timespec_now);
                 total_ns = total_seconds_in_ns + tv_nsec timespec_now
             in if RCUTILS_DISABLE_TIME_SANITY_CHECKS cfg
                then (RCUTILS_RET_OK, store_now p total_ns s)
                else
                  (let overflow_happened =
                         (sdiv64 INT64_MAX 1000000000 <s tv_sec timespec_now);
                       overflow_happened = (overflow_happened \<or>
                         (0 <s tv_nsec timespec_now \<and>
                          INT64_MAX - tv_nsec timespec_now <s total_seconds_in_ns))
                   in if overflow_happened
                      then (RCUTILS_CALCULATION_OVERFLOW,
                            RCUTILS_SET_ERROR_MSG t ''steady time overflow'' s)
                      else
                        (case rcutils_check_steady_time_monotonicity_thread_local cfg t
                                total_ns e s of
                           (ret, s1) \<Rightarrow>
                             if RCUTILS_RET_OK \<noteq> ret then (ret, s1)
                             else (RCUTILS_RET_OK, store_now p total_ns s1)))))"

section \<open>time_win32.c\<close>

record FILETIME =
  dwLowDateTime :: "32 word"
  dwHighDateTime :: "32 word"

text \<open>\<open>ft\<close> is what \<open>GetSystemTimePreciseAsFileTime\<close> has filled in.\<close>

definition win32_rcutils_system_time_now ::
  "tid \<Rightarrow> addr option \<Rightarrow> FILETIME \<Rightarrow> world \<Rightarrow> rcutils_ret_t \<times> world" where
  "win32_rcutils_system_time_now t now ft s =
     (case now of
        None \<Rightarrow> (RCUTILS_RET_INVALID_ARGUMENT, RCUTILS_CHECK_ARGUMENT_FOR_NULL t ''now'' s)
      | Some p \<Rightarrow>
          (let li = (word_cat (dwHighDateTime ft) (dwLowDateTime ft) :: int64);
               li = li - 116444736000000000
           in if sdiv64 INT64_MAX 100 <s li
              then (RCUTILS_CALCULATION_OVERFLOW,
                    RCUTILS_SET_ERROR_MSG t ''system time overflow'' s)
              else (RCUTILS_RET_OK, store_now p (li * 100) s)))"

text \<open>
  An \<open>int64_t\<close> division traps, and the call does not return, when the divisor is zero or
  the quotient is not representable.
\<close>

definition div_traps :: "int64 \<Rightarrow> int64 \<Rightarrow> bool" where
  "div_traps a b \<longleftrightarrow> b = 0 \<or> (a = INT64_MIN \<and> b = - 1)"

text \<open>
  \<open>cpu_frequency\<close> and \<open>performance_count\<close> are what \<open>QueryPerformanceFrequency\<close> and
  \<open>QueryPerformanceCounter\<close> have filled in. The result is \<open>None\<close> when a division traps.
\<close>

definition win32_rcutils_steady_time_now ::
  "build_config \<Rightarrow> tid \<Rightarrow> addr option \<Rightarrow> int64 \<Rightarrow> int64 \<Rightarrow> check_env \<Rightarrow> world
     \<Rightarrow> (rcutils_ret_t \<times> world) option" where
  "win32_rcutils_steady_time_now cfg t now cpu_frequency performance_count e s =
     (case now of
        None \<Rightarrow>
          Some (RCUTILS_RET_INVALID_ARGUMENT, RCUTILS_CHECK_ARGUMENT_FOR_NULL t ''now'' s)
      | Some p \<Rightarrow>
          if div_traps performance_count cpu_frequency then None
          else
            (let whole_seconds = sdiv64 performance_count cpu_frequency;
                 remainder_count = smod64 performance_count cpu_frequency
             in if div_traps (RCUTILS_S_TO_NS remainder_count) cpu_frequency then None
                else
                  (let remainder_ns = sdiv64 (RCUTILS_S_TO_NS remainder_count) cpu_frequency;
                       total_seconds_in_ns = RCUTILS_S_TO_NS whole_seconds;
                       total_ns = total_seconds_in_ns + remainder_ns
                   in if RCUTILS_DISABLE_TIME_SANITY_CHECKS cfg
                      then Some (RCUTILS_RET_OK, store_now p total_ns s)
                      else if sdiv64 INT64_MAX 1000000000 <s remainder_count
                      then Some (RCUTILS_CALCULATION_OVERFLOW,
                                 RCUTILS_SET_ERROR_MSG t
                                   (''overflow in steady time for '' @ [CHR 0x27] @
                                    ''remainder_count'' @ [CHR 0x27]) s)
                      else if sdiv64 INT64_MAX 1000000000 <s whole_seconds
                      then Some (RCUTILS_CALCULATION_OVERFLOW,
                                 RCUTILS_SET_ERROR_MSG t
                                   (''overflow in steady time for '' @ [CHR 0x27] @
                                    ''whole_seconds'' @ [CHR 0x27]) s)
                      else if 0 <s remainder_ns \<and> INT64_MAX - remainder_ns <s total_seconds_in_ns
                      then Some (RCUTILS_CALCULATION_OVERFLOW,
                                 RCUTILS_SET_ERROR_MSG t
                                   ''overflow in steady time during addition'' s)
                      else
                        (case rcutils_check_steady_time_monotonicity_thread_local cfg t
                                total_ns e s of
                           (ret, s1) \<Rightarrow>
                             if RCUTILS_RET_OK \<noteq> ret then Some (ret, s1)
                             else Some (RCUTILS_RET_OK, store_now p total_ns s1)))))"

section \<open>Notions used to state the properties\<close>

text \<open>The three builds.\<close>

definition build_disabled :: build_config where
  "build_disabled =
     \<lparr> RCUTILS_DISABLE_TIME_SANITY_CHECKS = True, RCUTILS_THREAD_LOCAL_PTHREAD = False \<rparr>"

definition build_thread_local :: build_config where
  "build_thread_local =
     \<lparr> RCUTILS_DISABLE_TIME_SANITY_CHECKS = False, RCUTILS_THREAD_LOCAL_PTHREAD = False \<rparr>"

definition build_pthread :: build_config where
  "build_pthread =
     \<lparr> RCUTILS_DISABLE_TIME_SANITY_CHECKS = False, RCUTILS_THREAD_LOCAL_PTHREAD = True \<rparr>"

text \<open>
  The last steady timestamp recorded for a thread: the \<open>_Thread_local\<close> variable, or the
  timestamp of the cell the thread has stored under the key. There is none in the build
  without sanity checks, and none for a thread that has no cell.
\<close>

definition last_recorded :: "build_config \<Rightarrow> tid \<Rightarrow> world \<Rightarrow> int64 option" where
  "last_recorded cfg t s =
     (if RCUTILS_DISABLE_TIME_SANITY_CHECKS cfg then None
      else if \<not> RCUTILS_THREAD_LOCAL_PTHREAD cfg then Some (last_steady_timestamp s t)
      else map_option (\<lambda>p. timestamp (heap s p)) (specific s t))"

definition last_or_min :: "build_config \<Rightarrow> tid \<Rightarrow> world \<Rightarrow> int64" where
  "last_or_min cfg t s = (case last_recorded cfg t s of None \<Rightarrow> INT64_MIN | Some l \<Rightarrow> l)"

text \<open>
  A thread is fresh when it has made no steady-time read and no init: its
  \<open>_Thread_local\<close> variable has its initial value, or it has stored nothing under the key.
\<close>

definition fresh_thread :: "build_config \<Rightarrow> tid \<Rightarrow> world \<Rightarrow> bool" where
  "fresh_thread cfg t s \<longleftrightarrow>
     (if RCUTILS_DISABLE_TIME_SANITY_CHECKS cfg then True
      else if \<not> RCUTILS_THREAD_LOCAL_PTHREAD cfg then last_steady_timestamp s t = INT64_MIN
      else specific s t = None)"

text \<open>
  The thread has its cell: always in the builds that allocate nothing, and in the pthread
  build when the key has been created and the thread has stored a cell under it.
\<close>

definition cell_exists :: "build_config \<Rightarrow> tid \<Rightarrow> world \<Rightarrow> bool" where
  "cell_exists cfg t s \<longleftrightarrow>
     (if RCUTILS_DISABLE_TIME_SANITY_CHECKS cfg \<or> \<not> RCUTILS_THREAD_LOCAL_PTHREAD cfg then True
      else key_init_once s \<and> make_pthread_keys_ret s = RCUTILS_RET_OK \<and> specific s t \<noteq> None)"

text \<open>
  What holds of the two statics of the pthread build in every state the code produces:
  \<open>__make_pthread_keys_ret\<close> starts as \<open>RCUTILS_RET_OK\<close> and is assigned only by
  \<open>__make_pthread_keys\<close>, which assigns \<open>RCUTILS_RET_ERROR\<close> or \<open>RCUTILS_RET_BAD_ALLOC\<close>.
\<close>

definition keys_inv :: "world \<Rightarrow> bool" where
  "keys_inv s \<longleftrightarrow>
     (make_pthread_keys_ret s = RCUTILS_RET_OK \<or>
      (key_init_once s \<and>
       (make_pthread_keys_ret s = RCUTILS_RET_ERROR \<or>
        make_pthread_keys_ret s = RCUTILS_RET_BAD_ALLOC)))"

text \<open>An environment in which every pthread call returns zero and \<open>allocate\<close> returns \<open>a\<close>.\<close>

definition ok_ensure_env :: "addr \<Rightarrow> ensure_env" where
  "ok_ensure_env a =
     \<lparr> once_ret = ESUCCESS, key_create_ret = ESUCCESS, allocate_ret = Some a,
       setspecific_ret = ESUCCESS \<rparr>"

definition ok_check_env :: "addr \<Rightarrow> check_env" where
  "ok_check_env a =
     \<lparr> get_env = ok_ensure_env a, set_env = ok_ensure_env a, set_setspecific_ret = ESUCCESS \<rparr>"

text \<open>
  Two environments in which one call fails: \<open>pthread_key_create\<close> returns \<open>ENOMEM\<close>, and
  \<open>allocate\<close> returns null. The state \<open>world_key_failed\<close> is the one a process is in after
  its first init, on thread 0, in the first of them.
\<close>

definition key_create_enomem_env :: ensure_env where
  "key_create_enomem_env =
     \<lparr> once_ret = ESUCCESS, key_create_ret = ENOMEM, allocate_ret = Some 64,
       setspecific_ret = ESUCCESS \<rparr>"

definition allocate_null_env :: ensure_env where
  "allocate_null_env =
     \<lparr> once_ret = ESUCCESS, key_create_ret = ESUCCESS, allocate_ret = None,
       setspecific_ret = ESUCCESS \<rparr>"

definition world_key_failed :: world where
  "world_key_failed =
     snd (rcutils_steady_time_now_thread_specific_init build_pthread 0
            rcutils_get_default_allocator key_create_enomem_env world_init)"

text \<open>
  Two states for the lifecycle hooks. In \<open>world_foreign_key\<close> no function of the
  interface has been called yet, another module of the process has created the key whose
  value is zero, and thread 0 has stored under it the address 200 of an object of that
  module. \<open>world_with_cell\<close> is the state after the first init of thread 0, with
  allocator 5, in an environment where every call succeeds and \<open>allocate\<close> returns 64.
\<close>

definition world_foreign_key :: world where
  "world_foreign_key =
     world_init\<lparr>key_zero_specific := (\<lambda>_. None)(0 := Some 200), live := {200}\<rparr>"

definition world_with_cell :: world where
  "world_with_cell =
     snd (rcutils_steady_time_now_thread_specific_init build_pthread 0 5 (ok_ensure_env 64)
            world_init)"

text \<open>
  The values a thread obtains from a sequence of calls of \<open>rcutils_steady_time_now\<close>
  (time_unix.c), each with its own destination, sample and environment: the value of
  \<open>*now\<close> after each call that returns \<open>RCUTILS_RET_OK\<close>, in order.
\<close>

fun unix_steady_reads ::
  "build_config \<Rightarrow> tid \<Rightarrow> (addr option \<times> timespec \<times> check_env) list \<Rightarrow> world \<Rightarrow> int64 list"
  where
  "unix_steady_reads cfg t [] s = []"
| "unix_steady_reads cfg t ((now, timespec_now, e) # calls) s =
     (case unix_rcutils_steady_time_now cfg t now timespec_now e s of
        (ret, s1) \<Rightarrow>
          (case now of
             Some p \<Rightarrow> (if ret = RCUTILS_RET_OK then [mem s1 p] else [])
           | None \<Rightarrow> []) @ unix_steady_reads cfg t calls s1)"

text \<open>
  The state the monotonicity check keeps for the threads, and a state with that part
  replaced.
\<close>

definition monotonicity_state ::
  "world \<Rightarrow> (tid \<Rightarrow> int64) \<times> (tid \<Rightarrow> addr option) \<times> (addr \<Rightarrow> last_steady_timestamp_storage_t)"
  where
  "monotonicity_state s = (last_steady_timestamp s, specific s, heap s)"

definition with_monotonicity_state ::
  "(tid \<Rightarrow> int64) \<times> (tid \<Rightarrow> addr option) \<times> (addr \<Rightarrow> last_steady_timestamp_storage_t)
     \<Rightarrow> world \<Rightarrow> world" where
  "with_monotonicity_state m s =
     s\<lparr>last_steady_timestamp := fst m, specific := fst (snd m), heap := snd (snd m)\<rparr>"

section \<open>Basic facts\<close>

lemma sint_INT64_MIN: "sint INT64_MIN = - (2 ^ 63)"
  by (simp add: INT64_MIN_def)

lemma sint_INT64_MAX: "sint INT64_MAX = 2 ^ 63 - 1"
  by (simp add: INT64_MAX_def)

lemma not_sless_INT64_MIN: "\<not> c <s INT64_MIN"
  using sint_ge [of c] by (simp add: word_sless_alt sint_INT64_MIN)

lemma INT64_MIN_sle: "INT64_MIN \<le>s c"
  using sint_ge [of c] by (simp add: word_sle_eq sint_INT64_MIN)

lemma INT64_MAX_div_1e9: "sdiv64 INT64_MAX 1000000000 = 9223372036"
  by (simp add: sdiv64_def sint_INT64_MAX signed_divide_int_def)

lemma INT64_MAX_div_100: "sdiv64 INT64_MAX 100 = 92233720368547758"
  by (simp add: sdiv64_def sint_INT64_MAX signed_divide_int_def)

lemmas pthread_defs =
  ensure_last_steady_timestamp_storage_def set_last_steady_timestamp_def
  destroy_last_steady_timestamp_storage_def allocator_deallocate_def
  pthread_once_def pthread_getspecific_def pthread_setspecific_def key_created_def
  make_pthread_keys_def RCUTILS_SET_ERROR_MSG_def

lemmas tls_defs =
  rcutils_time_common_get_last_steady_timestamp_thread_local_def
  rcutils_time_common_set_last_steady_timestamp_thread_local_def
  rcutils_time_common_ensure_last_steady_timestamp_def
  rcutils_time_common_destroy_last_steady_timestamp_def

lemmas check_def = rcutils_check_steady_time_monotonicity_thread_local_def

lemmas build_defs = build_disabled_def build_thread_local_def build_pthread_def

lemma set_error_sel [simp]:
  "mem (RCUTILS_SET_ERROR_MSG t m s) = mem s"
  "last_steady_timestamp (RCUTILS_SET_ERROR_MSG t m s) = last_steady_timestamp s"
  "key_init_once (RCUTILS_SET_ERROR_MSG t m s) = key_init_once s"
  "make_pthread_keys_ret (RCUTILS_SET_ERROR_MSG t m s) = make_pthread_keys_ret s"
  "specific (RCUTILS_SET_ERROR_MSG t m s) = specific s"
  "key_zero_specific (RCUTILS_SET_ERROR_MSG t m s) = key_zero_specific s"
  "heap (RCUTILS_SET_ERROR_MSG t m s) = heap s"
  "live (RCUTILS_SET_ERROR_MSG t m s) = live s"
  "released (RCUTILS_SET_ERROR_MSG t m s) = released s"
  by (simp_all add: RCUTILS_SET_ERROR_MSG_def)

lemmas pthread_core_defs =
  ensure_last_steady_timestamp_storage_def set_last_steady_timestamp_def
  destroy_last_steady_timestamp_storage_def allocator_deallocate_def
  pthread_once_def pthread_getspecific_def pthread_setspecific_def key_created_def
  make_pthread_keys_def

lemma set_last_ret:
  "fst (set_last_steady_timestamp t v r s) = RCUTILS_RET_OK \<or>
   fst (set_last_steady_timestamp t v r s) = RCUTILS_RET_ERROR \<or>
   fst (set_last_steady_timestamp t v r s) = RCUTILS_RET_BAD_ALLOC"
  by (simp add: set_last_steady_timestamp_def Let_def split: errno_t.splits)

lemma ensure_ret:
  "keys_inv s \<Longrightarrow>
   fst (ensure_last_steady_timestamp_storage t a e s) = RCUTILS_RET_OK \<or>
   fst (ensure_last_steady_timestamp_storage t a e s) = RCUTILS_RET_ERROR \<or>
   fst (ensure_last_steady_timestamp_storage t a e s) = RCUTILS_RET_BAD_ALLOC"
  using set_last_ret
  by (auto simp: ensure_last_steady_timestamp_storage_def pthread_once_def
      make_pthread_keys_def keys_inv_def Let_def
      split: errno_t.splits option.splits)

lemma ensure_keys_inv:
  "keys_inv s \<Longrightarrow> keys_inv (snd (ensure_last_steady_timestamp_storage t a e s))"
  by (auto simp: pthread_core_defs keys_inv_def Let_def
      split: errno_t.splits option.splits)

lemma ensure_ok:
  "ensure_last_steady_timestamp_storage t a e s = (RCUTILS_RET_OK, s1) \<Longrightarrow>
   key_init_once s1 \<and> make_pthread_keys_ret s1 = RCUTILS_RET_OK \<and> once_ret e = ESUCCESS"
  by (auto simp: pthread_core_defs Let_def split: errno_t.splits option.splits if_splits)

lemma ensure_cell:
  "ensure_last_steady_timestamp_storage t a e s = (ret, s1) \<Longrightarrow>
   (case specific s t of
      Some p \<Rightarrow> specific s1 t = Some p \<and> heap s1 = heap s
    | None \<Rightarrow> specific s1 t = None \<or>
        (\<exists>p. specific s1 t = Some p \<and> ret = RCUTILS_RET_OK \<and>
             heap s1 p = \<lparr> timestamp = INT64_MIN, self_allocator = a \<rparr>))"
  by (auto simp: pthread_core_defs Let_def split: errno_t.splits option.splits if_splits)


lemmas tls_get_def = rcutils_time_common_get_last_steady_timestamp_thread_local_def
lemmas tls_set_def = rcutils_time_common_set_last_steady_timestamp_thread_local_def

lemma check_Inl:
  "rcutils_time_common_get_last_steady_timestamp_thread_local cfg t (get_env e) s = (Inl r, s1)
   \<Longrightarrow> rcutils_check_steady_time_monotonicity_thread_local cfg t c e s = (r, s1)"
  by (simp add: check_def)

lemma check_Inr_less:
  "rcutils_time_common_get_last_steady_timestamp_thread_local cfg t (get_env e) s = (Inr l, s1)
   \<Longrightarrow> c <s l
   \<Longrightarrow> rcutils_check_steady_time_monotonicity_thread_local cfg t c e s =
       (RCUTILS_NON_MONOTONIC_STEADY_TIME,
        RCUTILS_SET_ERROR_MSG t ''non-monotonic steady time'' s1)"
  by (simp add: check_def)

lemma check_Inr_not_less:
  "rcutils_time_common_get_last_steady_timestamp_thread_local cfg t (get_env e) s = (Inr l, s1)
   \<Longrightarrow> \<not> c <s l
   \<Longrightarrow> rcutils_check_steady_time_monotonicity_thread_local cfg t c e s =
       rcutils_time_common_set_last_steady_timestamp_thread_local cfg t c (set_env e)
         (set_setspecific_ret e) s1"
  by (simp add: check_def)

lemma pthread_get:
  assumes "\<not> RCUTILS_DISABLE_TIME_SANITY_CHECKS cfg" and "RCUTILS_THREAD_LOCAL_PTHREAD cfg"
    and "ensure_last_steady_timestamp_storage t rcutils_get_default_allocator e s = (ret, s1)"
  shows "rcutils_time_common_get_last_steady_timestamp_thread_local cfg t e s =
     (if RCUTILS_RET_OK \<noteq> ret then (Inl ret, s1)
      else case specific s1 t of
             None \<Rightarrow> (Inl RCUTILS_RET_ERROR,
                RCUTILS_SET_ERROR_MSG t ''pthread_getspecific: unexpectedly returned NULL'' s1)
           | Some p \<Rightarrow> (Inr (timestamp (heap s1 p)), s1))"
  using assms ensure_ok [of t rcutils_get_default_allocator e s s1]
  by (auto simp: tls_get_def pthread_getspecific_def key_created_def)

lemma get_last_value:
  assumes "fst (rcutils_time_common_get_last_steady_timestamp_thread_local cfg t e s) = Inr l"
  shows "l = last_or_min cfg t s"
  using assms
  by (auto simp: tls_defs pthread_defs last_or_min_def last_recorded_def Let_def
      split: errno_t.splits option.splits if_splits prod.splits)

lemma tls_set_ret:
  assumes "keys_inv s"
  shows "fst (rcutils_time_common_set_last_steady_timestamp_thread_local cfg t c e r s)
         \<noteq> RCUTILS_NON_MONOTONIC_STEADY_TIME"
proof -
  obtain ret s1 where en:
    "ensure_last_steady_timestamp_storage t rcutils_get_default_allocator e s = (ret, s1)"
    by (cases "ensure_last_steady_timestamp_storage t rcutils_get_default_allocator e s")
  have "ret \<noteq> RCUTILS_NON_MONOTONIC_STEADY_TIME"
    using ensure_ret [OF assms, of t rcutils_get_default_allocator e] en by auto
  moreover have "\<And>v s'. fst (set_last_steady_timestamp t v r s')
         \<noteq> RCUTILS_NON_MONOTONIC_STEADY_TIME"
  proof -
    fix v s'
    show "fst (set_last_steady_timestamp t v r s') \<noteq> RCUTILS_NON_MONOTONIC_STEADY_TIME"
      using set_last_ret [of t v r s'] by auto
  qed
  ultimately show ?thesis
    by (simp add: tls_set_def en pthread_getspecific_def split: option.splits)
qed

lemma get_then_set_ret:
  assumes "fst (rcutils_time_common_get_last_steady_timestamp_thread_local cfg t e s) = Inr l"
  shows "fst (rcutils_time_common_set_last_steady_timestamp_thread_local cfg t c e' r
           (snd (rcutils_time_common_get_last_steady_timestamp_thread_local cfg t e s)))
         \<noteq> RCUTILS_NON_MONOTONIC_STEADY_TIME"
proof (cases "\<not> RCUTILS_DISABLE_TIME_SANITY_CHECKS cfg \<and> RCUTILS_THREAD_LOCAL_PTHREAD cfg")
  case False
  then show ?thesis by (auto simp: tls_set_def)
next
  case True
  obtain ret s1 where en:
    "ensure_last_steady_timestamp_storage t rcutils_get_default_allocator e s = (ret, s1)"
    by (cases "ensure_last_steady_timestamp_storage t rcutils_get_default_allocator e s")
  have g: "rcutils_time_common_get_last_steady_timestamp_thread_local cfg t e s =
     (if RCUTILS_RET_OK \<noteq> ret then (Inl ret, s1)
      else case specific s1 t of
             None \<Rightarrow> (Inl RCUTILS_RET_ERROR,
                RCUTILS_SET_ERROR_MSG t ''pthread_getspecific: unexpectedly returned NULL'' s1)
           | Some p \<Rightarrow> (Inr (timestamp (heap s1 p)), s1))"
    using True en by (simp add: pthread_get)
  from assms g have ok: "ret = RCUTILS_RET_OK" and s1: "snd (rcutils_time_common_get_last_steady_timestamp_thread_local cfg t e s) = s1"
    by (auto split: if_splits option.splits)
  from ensure_ok en ok have "make_pthread_keys_ret s1 = RCUTILS_RET_OK" by blast
  then have "keys_inv s1" by (simp add: keys_inv_def)
  then show ?thesis unfolding s1 by (rule tls_set_ret)
qed

lemma fresh_check_not_non_monotonic:
  assumes "keys_inv s" and "fresh_thread cfg t s"
  shows "fst (rcutils_check_steady_time_monotonicity_thread_local cfg t c e s)
         \<noteq> RCUTILS_NON_MONOTONIC_STEADY_TIME"
proof (cases "\<not> RCUTILS_DISABLE_TIME_SANITY_CHECKS cfg \<and> RCUTILS_THREAD_LOCAL_PTHREAD cfg")
  case False
  then show ?thesis
    using assms(2)
    by (auto simp: check_def tls_get_def tls_set_def fresh_thread_def not_sless_INT64_MIN)
next
  case True
  with assms(2) have none: "specific s t = None" by (simp add: fresh_thread_def)
  obtain ret s1 where en:
    "ensure_last_steady_timestamp_storage t rcutils_get_default_allocator (get_env e) s = (ret, s1)"
    by (cases "ensure_last_steady_timestamp_storage t rcutils_get_default_allocator (get_env e) s")
  have g: "rcutils_time_common_get_last_steady_timestamp_thread_local cfg t (get_env e) s =
     (if RCUTILS_RET_OK \<noteq> ret then (Inl ret, s1)
      else case specific s1 t of
             None \<Rightarrow> (Inl RCUTILS_RET_ERROR,
                RCUTILS_SET_ERROR_MSG t ''pthread_getspecific: unexpectedly returned NULL'' s1)
           | Some p \<Rightarrow> (Inr (timestamp (heap s1 p)), s1))"
    using True en by (simp add: pthread_get)
  have ret: "ret \<noteq> RCUTILS_NON_MONOTONIC_STEADY_TIME"
    using ensure_ret [OF assms(1), of t rcutils_get_default_allocator "get_env e"] en by auto
  have inv1: "keys_inv s1"
    using ensure_keys_inv [OF assms(1), of t rcutils_get_default_allocator "get_env e"] en
    by simp
  show ?thesis
  proof (cases "RCUTILS_RET_OK \<noteq> ret")
    case True
    then show ?thesis using ret g by (simp add: check_Inl)
  next
    case ok: False
    show ?thesis
    proof (cases "specific s1 t")
      case None
      then show ?thesis using ok g by (simp add: check_Inl)
    next
      case (Some p)
      with ensure_cell [OF en] none
      have "timestamp (heap s1 p) = INT64_MIN" by auto
      with Some ok g
      have g': "rcutils_time_common_get_last_steady_timestamp_thread_local cfg t (get_env e) s
                = (Inr INT64_MIN, s1)"
        by simp
      show ?thesis
        using tls_set_ret [OF inv1]
        by (simp add: check_Inr_not_less [OF g' not_sless_INT64_MIN])
    qed
  qed
qed

text \<open>
  One monotonicity check, in a build with sanity checks: the recorded timestamp does not
  decrease, a check that succeeds records its candidate, and the caller's memory is not
  touched.
\<close>

lemma check_step:
  assumes "\<not> RCUTILS_DISABLE_TIME_SANITY_CHECKS cfg"
    and "rcutils_check_steady_time_monotonicity_thread_local cfg t c e s = (ret, s1)"
  shows "last_or_min cfg t s \<le>s last_or_min cfg t s1"
    and "ret = RCUTILS_RET_OK \<Longrightarrow> last_recorded cfg t s1 = Some c"
    and "mem s1 = mem s"
  using assms
  by (auto simp: check_def tls_defs pthread_defs
      last_or_min_def last_recorded_def Let_def signed.not_less INT64_MIN_sle
      split: errno_t.splits option.splits if_splits prod.splits sum.splits)

section \<open>The monotonicity check\<close>

text \<open>
  C2. Whenever the getter succeeds and yields \<open>l\<close>, \<open>l\<close> is the timestamp last recorded
  for the calling thread (the minimum value when there is none yet), and the check returns
  \<open>RCUTILS_NON_MONOTONIC_STEADY_TIME\<close> if and only if the candidate is strictly smaller
  than \<open>l\<close>: an equal candidate is accepted, every smaller one is rejected. In a build
  with sanity checks, a check that returns \<open>RCUTILS_RET_OK\<close> leaves the candidate as
  the thread's recorded timestamp.
\<close>

theorem monotonicity_check_iff:
  assumes "fst (rcutils_time_common_get_last_steady_timestamp_thread_local cfg t (get_env e) s)
           = Inr l"
  shows "l = last_or_min cfg t s \<and>
         (fst (rcutils_check_steady_time_monotonicity_thread_local cfg t c e s)
            = RCUTILS_NON_MONOTONIC_STEADY_TIME \<longleftrightarrow> c <s l) \<and>
         (\<not> RCUTILS_DISABLE_TIME_SANITY_CHECKS cfg \<longrightarrow>
          fst (rcutils_check_steady_time_monotonicity_thread_local cfg t c e s) = RCUTILS_RET_OK \<longrightarrow>
          last_recorded cfg t (snd (rcutils_check_steady_time_monotonicity_thread_local cfg t c e s))
            = Some c)"
proof (intro conjI impI)
  show "l = last_or_min cfg t s"
    using assms by (rule get_last_value)
next
  obtain g s0 where g:
    "rcutils_time_common_get_last_steady_timestamp_thread_local cfg t (get_env e) s = (g, s0)"
    by (cases "rcutils_time_common_get_last_steady_timestamp_thread_local cfg t (get_env e) s")
  with assms have g': "g = Inr l" by simp
  have "fst (rcutils_time_common_set_last_steady_timestamp_thread_local cfg t c (set_env e)
              (set_setspecific_ret e) s0) \<noteq> RCUTILS_NON_MONOTONIC_STEADY_TIME"
    using get_then_set_ret [OF assms, of c "set_env e" "set_setspecific_ret e"] g
    by simp
  then show "fst (rcutils_check_steady_time_monotonicity_thread_local cfg t c e s)
            = RCUTILS_NON_MONOTONIC_STEADY_TIME \<longleftrightarrow> c <s l"
    by (simp add: check_def g g')
next
  assume "\<not> RCUTILS_DISABLE_TIME_SANITY_CHECKS cfg"
    and "fst (rcutils_check_steady_time_monotonicity_thread_local cfg t c e s) = RCUTILS_RET_OK"
  then show "last_recorded cfg t
               (snd (rcutils_check_steady_time_monotonicity_thread_local cfg t c e s)) = Some c"
    using check_step(2) [of cfg t c e s] by (metis prod.collapse)
qed

lemma witness_state_get:
  "rcutils_time_common_get_last_steady_timestamp_thread_local build_pthread 0
          (ok_ensure_env 64) world_init
    = (Inr INT64_MIN,
       world_init\<lparr>key_init_once := True, specific := (\<lambda>_. None)(0 := Some 64),
          heap := (heap world_init)(64 := \<lparr> timestamp = INT64_MIN, self_allocator = 0 \<rparr>),
          live := {64}\<rparr>)"
  by (simp add: tls_get_def pthread_core_defs build_defs ok_ensure_env_def world_init_def
      rcutils_get_default_allocator_def)

theorem monotonicity_check_iff_witness:
  "fst (rcutils_time_common_get_last_steady_timestamp_thread_local build_pthread 0
          (get_env (ok_check_env 64)) world_init) = Inr INT64_MIN \<and>
   \<not> RCUTILS_DISABLE_TIME_SANITY_CHECKS build_pthread \<and>
   fst (rcutils_check_steady_time_monotonicity_thread_local build_pthread 0 5
          (ok_check_env 64) world_init) = RCUTILS_RET_OK \<and>
   \<not> (5 :: int64) <s INT64_MIN \<and>
   last_recorded build_pthread 0
     (snd (rcutils_check_steady_time_monotonicity_thread_local build_pthread 0 5
             (ok_check_env 64) world_init)) = Some 5"
proof -
  have g: "fst (rcutils_time_common_get_last_steady_timestamp_thread_local build_pthread 0
          (get_env (ok_check_env 64)) world_init) = Inr INT64_MIN"
    by (simp add: ok_check_env_def witness_state_get)
  have d: "\<not> RCUTILS_DISABLE_TIME_SANITY_CHECKS build_pthread"
    by (simp add: build_defs)
  have ok: "fst (rcutils_check_steady_time_monotonicity_thread_local build_pthread 0 5
          (ok_check_env 64) world_init) = RCUTILS_RET_OK"
    by (simp add: check_def ok_check_env_def tls_get_def not_sless_INT64_MIN
        tls_set_def pthread_core_defs build_defs ok_ensure_env_def world_init_def
        rcutils_get_default_allocator_def)
  show ?thesis
    using monotonicity_check_iff [OF g, of 5] g d ok by (simp add: not_sless_INT64_MIN)
qed

section \<open>The first read of a thread\<close>

text \<open>
  C9. On a fresh thread, in every state where the statics of the pthread build hold what
  the code assigns to them, the first monotonicity check and hence the first
  \<open>rcutils_steady_time_now\<close> (time_unix.c and time_win32.c) never returns
  \<open>RCUTILS_NON_MONOTONIC_STEADY_TIME\<close>, whatever the candidate and whatever the pthread
  calls and the allocator return: the value compared against is \<open>INT64_MIN\<close> and the
  comparison is strict.
\<close>

theorem first_read_never_non_monotonic:
  assumes "keys_inv s" and "fresh_thread cfg t s"
  shows "fst (rcutils_check_steady_time_monotonicity_thread_local cfg t c e s)
           \<noteq> RCUTILS_NON_MONOTONIC_STEADY_TIME \<and>
         fst (unix_rcutils_steady_time_now cfg t now timespec_now e s)
           \<noteq> RCUTILS_NON_MONOTONIC_STEADY_TIME \<and>
         map_option fst
           (win32_rcutils_steady_time_now cfg t now cpu_frequency performance_count e s)
           \<noteq> Some RCUTILS_NON_MONOTONIC_STEADY_TIME"
proof (intro conjI)
  show "fst (rcutils_check_steady_time_monotonicity_thread_local cfg t c e s)
           \<noteq> RCUTILS_NON_MONOTONIC_STEADY_TIME"
    using assms by (rule fresh_check_not_non_monotonic)
next
  let ?c = "RCUTILS_S_TO_NS (tv_sec timespec_now) + tv_nsec timespec_now"
  obtain ret s1 where chk:
    "rcutils_check_steady_time_monotonicity_thread_local cfg t ?c e s = (ret, s1)"
    by (cases "rcutils_check_steady_time_monotonicity_thread_local cfg t ?c e s")
  have "ret \<noteq> RCUTILS_NON_MONOTONIC_STEADY_TIME"
    using fresh_check_not_non_monotonic [OF assms, of ?c e] chk by simp
  then show "fst (unix_rcutils_steady_time_now cfg t now timespec_now e s)
           \<noteq> RCUTILS_NON_MONOTONIC_STEADY_TIME"
    by (simp add: unix_rcutils_steady_time_now_def Let_def chk split: option.splits)
next
  let ?c = "RCUTILS_S_TO_NS (sdiv64 performance_count cpu_frequency) +
         sdiv64 (RCUTILS_S_TO_NS (smod64 performance_count cpu_frequency)) cpu_frequency"
  obtain ret s1 where chk:
    "rcutils_check_steady_time_monotonicity_thread_local cfg t ?c e s = (ret, s1)"
    by (cases "rcutils_check_steady_time_monotonicity_thread_local cfg t ?c e s")
  have ret: "ret \<noteq> RCUTILS_NON_MONOTONIC_STEADY_TIME"
    using fresh_check_not_non_monotonic [OF assms, of ?c e] chk by simp
  then show "map_option fst
           (win32_rcutils_steady_time_now cfg t now cpu_frequency performance_count e s)
           \<noteq> Some RCUTILS_NON_MONOTONIC_STEADY_TIME"
    by (simp add: win32_rcutils_steady_time_now_def Let_def chk split: option.splits)
qed

theorem first_read_never_non_monotonic_witness:
  "keys_inv world_init \<and> fresh_thread build_pthread 0 world_init \<and>
   fst (unix_rcutils_steady_time_now build_pthread 0 (Some 0)
          \<lparr> tv_sec = 0, tv_nsec = 0 \<rparr> (ok_check_env 64) world_init)
     \<noteq> RCUTILS_NON_MONOTONIC_STEADY_TIME"
proof -
  have k: "keys_inv world_init"
    by (simp add: keys_inv_def world_init_def)
  have f: "fresh_thread build_pthread 0 world_init"
    by (simp add: fresh_thread_def build_defs world_init_def)
  show ?thesis
    using first_read_never_non_monotonic [OF k f] k f by simp
qed

section \<open>What a time read writes\<close>

lemma INT64_MAX_div_1e9_num: "sdiv64 9223372036854775807 1000000000 = 9223372036"
  using INT64_MAX_div_1e9 by (simp add: INT64_MAX_def)

lemma INT64_MAX_div_100_num: "sdiv64 9223372036854775807 100 = 92233720368547758"
  using INT64_MAX_div_100 by (simp add: INT64_MAX_def)

lemmas eval_defs =
  WOULD_BE_NEGATIVE_def RCUTILS_S_TO_NS_def INT64_MAX_def INT64_MIN_def
  INT64_MAX_div_1e9_num INT64_MAX_div_100_num word_sless_alt word_sle_eq
  build_defs Let_def

lemma store_now_sel [simp]:
  "mem (store_now p v s) = (mem s)(p := v)"
  "last_steady_timestamp (store_now p v s) = last_steady_timestamp s"
  "key_init_once (store_now p v s) = key_init_once s"
  "make_pthread_keys_ret (store_now p v s) = make_pthread_keys_ret s"
  "specific (store_now p v s) = specific s"
  "key_zero_specific (store_now p v s) = key_zero_specific s"
  "heap (store_now p v s) = heap s"
  "live (store_now p v s) = live s"
  "released (store_now p v s) = released s"
  by (simp_all add: store_now_def)

lemma null_check_sel [simp]:
  "mem (RCUTILS_CHECK_ARGUMENT_FOR_NULL t m s) = mem s"
  "last_steady_timestamp (RCUTILS_CHECK_ARGUMENT_FOR_NULL t m s) = last_steady_timestamp s"
  "key_init_once (RCUTILS_CHECK_ARGUMENT_FOR_NULL t m s) = key_init_once s"
  "make_pthread_keys_ret (RCUTILS_CHECK_ARGUMENT_FOR_NULL t m s) = make_pthread_keys_ret s"
  "specific (RCUTILS_CHECK_ARGUMENT_FOR_NULL t m s) = specific s"
  "key_zero_specific (RCUTILS_CHECK_ARGUMENT_FOR_NULL t m s) = key_zero_specific s"
  "heap (RCUTILS_CHECK_ARGUMENT_FOR_NULL t m s) = heap s"
  "live (RCUTILS_CHECK_ARGUMENT_FOR_NULL t m s) = live s"
  "released (RCUTILS_CHECK_ARGUMENT_FOR_NULL t m s) = released s"
  by (simp_all add: RCUTILS_CHECK_ARGUMENT_FOR_NULL_def)

lemma set_last_mem: "mem (snd (set_last_steady_timestamp t v r s)) = mem s"
  by (simp add: set_last_steady_timestamp_def pthread_setspecific_def Let_def
      split: errno_t.splits)

lemma ensure_mem: "mem (snd (ensure_last_steady_timestamp_storage t a e s)) = mem s"
  by (simp add: ensure_last_steady_timestamp_storage_def pthread_once_def
      make_pthread_keys_def pthread_getspecific_def set_last_mem Let_def
      split: errno_t.splits option.splits)

lemma tls_get_mem:
  "mem (snd (rcutils_time_common_get_last_steady_timestamp_thread_local cfg t e s)) = mem s"
proof -
  obtain ret s1 where en:
    "ensure_last_steady_timestamp_storage t rcutils_get_default_allocator e s = (ret, s1)"
    by (cases "ensure_last_steady_timestamp_storage t rcutils_get_default_allocator e s")
  have "mem s1 = mem s"
    using ensure_mem [of t rcutils_get_default_allocator e s] en by simp
  then show ?thesis
    by (simp add: tls_get_def en split: option.splits)
qed

lemma tls_set_mem:
  "mem (snd (rcutils_time_common_set_last_steady_timestamp_thread_local cfg t c e r s)) = mem s"
proof -
  obtain ret s1 where en:
    "ensure_last_steady_timestamp_storage t rcutils_get_default_allocator e s = (ret, s1)"
    by (cases "ensure_last_steady_timestamp_storage t rcutils_get_default_allocator e s")
  have "mem s1 = mem s"
    using ensure_mem [of t rcutils_get_default_allocator e s] en by simp
  then show ?thesis
    by (simp add: tls_set_def en set_last_mem split: option.splits)
qed

lemma check_mem:
  "mem (snd (rcutils_check_steady_time_monotonicity_thread_local cfg t c e s)) = mem s"
proof -
  obtain g s1 where g:
    "rcutils_time_common_get_last_steady_timestamp_thread_local cfg t (get_env e) s = (g, s1)"
    by (cases "rcutils_time_common_get_last_steady_timestamp_thread_local cfg t (get_env e) s")
  have "mem s1 = mem s"
    using tls_get_mem [of cfg t "get_env e" s] g by simp
  then show ?thesis
    by (simp add: check_def g tls_set_mem split: sum.splits)
qed

lemma unix_system_mem:
  "(fst (unix_rcutils_system_time_now cfg t now timespec_now s) \<noteq> RCUTILS_RET_OK \<longrightarrow>
      mem (snd (unix_rcutils_system_time_now cfg t now timespec_now s)) = mem s) \<and>
   (fst (unix_rcutils_system_time_now cfg t now timespec_now s) = RCUTILS_RET_OK \<longrightarrow>
      (\<exists>p. now = Some p \<and>
         mem (snd (unix_rcutils_system_time_now cfg t now timespec_now s)) =
           (mem s)(p := RCUTILS_S_TO_NS (tv_sec timespec_now) + tv_nsec timespec_now)))"
  by (simp add: unix_rcutils_system_time_now_def Let_def split: option.splits)

lemma unix_steady_mem:
  "(fst (unix_rcutils_steady_time_now cfg t now timespec_now e s) \<noteq> RCUTILS_RET_OK \<longrightarrow>
      mem (snd (unix_rcutils_steady_time_now cfg t now timespec_now e s)) = mem s) \<and>
   (fst (unix_rcutils_steady_time_now cfg t now timespec_now e s) = RCUTILS_RET_OK \<longrightarrow>
      (\<exists>p. now = Some p \<and>
         mem (snd (unix_rcutils_steady_time_now cfg t now timespec_now e s)) =
           (mem s)(p := RCUTILS_S_TO_NS (tv_sec timespec_now) + tv_nsec timespec_now)))"
proof -
  let ?c = "RCUTILS_S_TO_NS (tv_sec timespec_now) + tv_nsec timespec_now"
  obtain ret s1 where chk:
    "rcutils_check_steady_time_monotonicity_thread_local cfg t ?c e s = (ret, s1)"
    by (cases "rcutils_check_steady_time_monotonicity_thread_local cfg t ?c e s")
  have "mem s1 = mem s"
    using check_mem [of cfg t ?c e s] chk by simp
  then show ?thesis
    by (simp add: unix_rcutils_steady_time_now_def Let_def chk split: option.splits)
qed

lemma win32_system_mem:
  "(fst (win32_rcutils_system_time_now t now ft s) \<noteq> RCUTILS_RET_OK \<longrightarrow>
      mem (snd (win32_rcutils_system_time_now t now ft s)) = mem s) \<and>
   (fst (win32_rcutils_system_time_now t now ft s) = RCUTILS_RET_OK \<longrightarrow>
      (\<exists>p v. now = Some p \<and>
         mem (snd (win32_rcutils_system_time_now t now ft s)) = (mem s)(p := v)))"
  by (auto simp: win32_rcutils_system_time_now_def Let_def split: option.splits)

lemma win32_steady_mem:
  assumes "win32_rcutils_steady_time_now cfg t now cpu_frequency performance_count e s = Some r"
  shows "(fst r \<noteq> RCUTILS_RET_OK \<longrightarrow> mem (snd r) = mem s) \<and>
         (fst r = RCUTILS_RET_OK \<longrightarrow> (\<exists>p v. now = Some p \<and> mem (snd r) = (mem s)(p := v)))"
proof -
  let ?c = "RCUTILS_S_TO_NS (sdiv64 performance_count cpu_frequency) +
         sdiv64 (RCUTILS_S_TO_NS (smod64 performance_count cpu_frequency)) cpu_frequency"
  obtain ret s1 where chk:
    "rcutils_check_steady_time_monotonicity_thread_local cfg t ?c e s = (ret, s1)"
    by (cases "rcutils_check_steady_time_monotonicity_thread_local cfg t ?c e s")
  have "mem s1 = mem s"
    using check_mem [of cfg t ?c e s] chk by simp
  then show ?thesis
    using assms
    by (auto simp: win32_rcutils_steady_time_now_def Let_def chk
        split: option.splits if_splits)
qed


text \<open>
  C4. A call of \<open>rcutils_system_time_now\<close> or \<open>rcutils_steady_time_now\<close> (time_unix.c and
  time_win32.c) that returns anything but \<open>RCUTILS_RET_OK\<close> leaves the caller's memory as
  it was, so the destination is not written; a call that returns \<open>RCUTILS_RET_OK\<close> had a
  non-null destination and has changed the caller's memory there and nowhere else.
\<close>

theorem failing_read_leaves_output_unwritten:
  "(fst (unix_rcutils_system_time_now cfg t now timespec_now s) \<noteq> RCUTILS_RET_OK \<longrightarrow>
      mem (snd (unix_rcutils_system_time_now cfg t now timespec_now s)) = mem s) \<and>
   (fst (unix_rcutils_system_time_now cfg t now timespec_now s) = RCUTILS_RET_OK \<longrightarrow>
      (\<exists>p. now = Some p \<and>
         mem (snd (unix_rcutils_system_time_now cfg t now timespec_now s)) =
           (mem s)(p := RCUTILS_S_TO_NS (tv_sec timespec_now) + tv_nsec timespec_now))) \<and>
   (fst (unix_rcutils_steady_time_now cfg t now timespec_now e s) \<noteq> RCUTILS_RET_OK \<longrightarrow>
      mem (snd (unix_rcutils_steady_time_now cfg t now timespec_now e s)) = mem s) \<and>
   (fst (unix_rcutils_steady_time_now cfg t now timespec_now e s) = RCUTILS_RET_OK \<longrightarrow>
      (\<exists>p. now = Some p \<and>
         mem (snd (unix_rcutils_steady_time_now cfg t now timespec_now e s)) =
           (mem s)(p := RCUTILS_S_TO_NS (tv_sec timespec_now) + tv_nsec timespec_now))) \<and>
   (fst (win32_rcutils_system_time_now t now ft s) \<noteq> RCUTILS_RET_OK \<longrightarrow>
      mem (snd (win32_rcutils_system_time_now t now ft s)) = mem s) \<and>
   (fst (win32_rcutils_system_time_now t now ft s) = RCUTILS_RET_OK \<longrightarrow>
      (\<exists>p v. now = Some p \<and>
         mem (snd (win32_rcutils_system_time_now t now ft s)) = (mem s)(p := v))) \<and>
   (\<forall>r. win32_rcutils_steady_time_now cfg t now cpu_frequency performance_count e s = Some r
      \<longrightarrow> (fst r \<noteq> RCUTILS_RET_OK \<longrightarrow> mem (snd r) = mem s) \<and>
          (fst r = RCUTILS_RET_OK \<longrightarrow>
             (\<exists>p v. now = Some p \<and> mem (snd r) = (mem s)(p := v))))"
  using unix_system_mem [of cfg t now timespec_now s]
    unix_steady_mem [of cfg t now timespec_now e s]
    win32_system_mem [of t now ft s]
    win32_steady_mem [of cfg t now cpu_frequency performance_count e s]
  by blast

theorem failing_read_leaves_output_unwritten_witness:
  "fst (unix_rcutils_steady_time_now build_thread_local 0 (Some 0)
          \<lparr> tv_sec = 0, tv_nsec = 50 \<rparr> (ok_check_env 64)
          (world_init\<lparr>last_steady_timestamp := (\<lambda>_. 100)\<rparr>))
     = RCUTILS_NON_MONOTONIC_STEADY_TIME \<and>
   mem (snd (unix_rcutils_steady_time_now build_thread_local 0 (Some 0)
          \<lparr> tv_sec = 0, tv_nsec = 50 \<rparr> (ok_check_env 64)
          (world_init\<lparr>last_steady_timestamp := (\<lambda>_. 100)\<rparr>)))
     = mem world_init \<and>
   fst (unix_rcutils_system_time_now build_thread_local 0 (Some 0)
          \<lparr> tv_sec = 2, tv_nsec = 50 \<rparr> world_init) = RCUTILS_RET_OK \<and>
   mem (snd (unix_rcutils_system_time_now build_thread_local 0 (Some 0)
          \<lparr> tv_sec = 2, tv_nsec = 50 \<rparr> world_init)) = (mem world_init)(0 := 2000000050)"
proof -
  let ?s = "world_init\<lparr>last_steady_timestamp := (\<lambda>_. 100)\<rparr>"
  let ?ts = "\<lparr> tv_sec = 0, tv_nsec = 50 \<rparr>"
  let ?ts' = "\<lparr> tv_sec = 2, tv_nsec = 50 \<rparr>"
  have f: "fst (unix_rcutils_steady_time_now build_thread_local 0 (Some 0) ?ts
                  (ok_check_env 64) ?s) = RCUTILS_NON_MONOTONIC_STEADY_TIME"
    by (simp add: unix_rcutils_steady_time_now_def check_def tls_get_def eval_defs)
  have g: "fst (unix_rcutils_system_time_now build_thread_local 0 (Some 0) ?ts' world_init)
           = RCUTILS_RET_OK"
    by (simp add: unix_rcutils_system_time_now_def eval_defs)
  show ?thesis
    using failing_read_leaves_output_unwritten
      [of build_thread_local 0 "Some 0" ?ts' world_init]
      failing_read_leaves_output_unwritten
      [of build_thread_local 0 "Some 0" ?ts ?s "ok_check_env 64"] f g
    by (simp add: RCUTILS_S_TO_NS_def)
qed

section \<open>The system time and the monotonicity state\<close>

text \<open>
  C5. \<open>rcutils_system_time_now\<close> (time_unix.c and time_win32.c) leaves the monotonicity
  state of every thread as it was, and run in a state whose monotonicity state has been
  replaced by any other it returns the same status and leaves the same state but for that
  replacement: it neither writes nor reads the per-thread cells.
\<close>

theorem system_time_ignores_monotonicity_state:
  "monotonicity_state (snd (unix_rcutils_system_time_now cfg t now timespec_now s))
     = monotonicity_state s \<and>
   unix_rcutils_system_time_now cfg t now timespec_now (with_monotonicity_state m s)
     = (fst (unix_rcutils_system_time_now cfg t now timespec_now s),
        with_monotonicity_state m (snd (unix_rcutils_system_time_now cfg t now timespec_now s)))
   \<and>
   monotonicity_state (snd (win32_rcutils_system_time_now t now ft s))
     = monotonicity_state s \<and>
   win32_rcutils_system_time_now t now ft (with_monotonicity_state m s)
     = (fst (win32_rcutils_system_time_now t now ft s),
        with_monotonicity_state m (snd (win32_rcutils_system_time_now t now ft s)))"
  by (auto simp: unix_rcutils_system_time_now_def win32_rcutils_system_time_now_def
      monotonicity_state_def with_monotonicity_state_def Let_def store_now_def
      RCUTILS_SET_ERROR_MSG_def RCUTILS_CHECK_ARGUMENT_FOR_NULL_def
      split: option.splits)

section \<open>Successive steady-time reads of a thread\<close>

lemma last_or_min_frame [simp]:
  "last_or_min cfg t (RCUTILS_SET_ERROR_MSG t' m s) = last_or_min cfg t s"
  "last_or_min cfg t (RCUTILS_CHECK_ARGUMENT_FOR_NULL t' m s) = last_or_min cfg t s"
  "last_or_min cfg t (store_now p v s) = last_or_min cfg t s"
  by (simp_all add: last_or_min_def last_recorded_def)

lemma check_ok_cell:
  assumes "\<not> RCUTILS_DISABLE_TIME_SANITY_CHECKS cfg"
    and "rcutils_check_steady_time_monotonicity_thread_local cfg t c e s = (RCUTILS_RET_OK, s1)"
  shows "cell_exists cfg t s1"
  using assms
  by (auto simp: check_def tls_defs pthread_core_defs cell_exists_def Let_def
      split: errno_t.splits option.splits if_splits prod.splits sum.splits)

lemma ensure_existing:
  assumes "key_init_once s" and "make_pthread_keys_ret s = RCUTILS_RET_OK"
    and "specific s t = Some p" and "once_ret e = ESUCCESS"
  shows "ensure_last_steady_timestamp_storage t a e s = (RCUTILS_RET_OK, s)"
  using assms
  by (simp add: ensure_last_steady_timestamp_storage_def pthread_once_def
      pthread_getspecific_def key_created_def)

lemma check_rejects_smaller:
  assumes "cell_exists cfg t s" and "last_recorded cfg t s = Some l" and "c <s l"
    and "once_ret (get_env e) = ESUCCESS"
  shows "fst (rcutils_check_steady_time_monotonicity_thread_local cfg t c e s)
         = RCUTILS_NON_MONOTONIC_STEADY_TIME"
proof -
  have "rcutils_time_common_get_last_steady_timestamp_thread_local cfg t (get_env e) s
        = (Inr l, s)"
    using assms
    by (auto simp: tls_get_def cell_exists_def last_recorded_def ensure_existing
        pthread_getspecific_def key_created_def split: if_splits)
  then show ?thesis
    using assms(3) by (simp add: check_Inr_less)
qed

lemma unix_steady_step:
  assumes "\<not> RCUTILS_DISABLE_TIME_SANITY_CHECKS cfg"
    and "unix_rcutils_steady_time_now cfg t now timespec_now e s = (ret, s1)"
  shows "last_or_min cfg t s \<le>s last_or_min cfg t s1"
    and "ret = RCUTILS_RET_OK \<Longrightarrow>
           \<exists>p. now = Some p \<and> last_recorded cfg t s1 = Some (mem s1 p) \<and> cell_exists cfg t s1"
proof -
  let ?c = "RCUTILS_S_TO_NS (tv_sec timespec_now) + tv_nsec timespec_now"
  obtain r s' where chk:
    "rcutils_check_steady_time_monotonicity_thread_local cfg t ?c e s = (r, s')"
    by (cases "rcutils_check_steady_time_monotonicity_thread_local cfg t ?c e s")
  note st = check_step [OF assms(1) chk]
  show "last_or_min cfg t s \<le>s last_or_min cfg t s1"
    using assms st(1)
    by (auto simp: unix_rcutils_steady_time_now_def Let_def chk
        split: option.splits if_splits)
  show "\<exists>p. now = Some p \<and> last_recorded cfg t s1 = Some (mem s1 p) \<and> cell_exists cfg t s1"
    if "ret = RCUTILS_RET_OK"
  proof -
    from that assms obtain p where p: "now = Some p" and r: "r = RCUTILS_RET_OK"
      and s1: "s1 = store_now p ?c s'"
      by (auto simp: unix_rcutils_steady_time_now_def Let_def chk
          split: option.splits if_splits)
    have "last_recorded cfg t s' = Some ?c" using st(2) r by simp
    moreover have "cell_exists cfg t s'" using check_ok_cell [OF assms(1)] chk r by simp
    ultimately show ?thesis
      using p s1 assms(1)
      by (auto simp: last_recorded_def cell_exists_def split: if_splits)
  qed
qed

lemma unix_steady_reads_ge:
  assumes "\<not> RCUTILS_DISABLE_TIME_SANITY_CHECKS cfg"
  shows "\<forall>v \<in> set (unix_steady_reads cfg t calls s). last_or_min cfg t s \<le>s v"
proof (induction calls arbitrary: s)
  case Nil
  then show ?case by simp
next
  case (Cons call calls)
  obtain now ts e where call: "call = (now, ts, e)" by (cases call)
  obtain ret s1 where r: "unix_rcutils_steady_time_now cfg t now ts e s = (ret, s1)"
    by (cases "unix_rcutils_steady_time_now cfg t now ts e s")
  note st = unix_steady_step [OF assms r]
  have le: "sint (last_or_min cfg t s) \<le> sint (last_or_min cfg t s1)"
    using st(1) by (simp add: word_sle_eq)
  have tl: "\<forall>v \<in> set (unix_steady_reads cfg t calls s1). last_or_min cfg t s \<le>s v"
    using Cons.IH [of s1] le by (auto simp: word_sle_eq)
  have hd: "last_or_min cfg t s \<le>s mem s1 p" if "ret = RCUTILS_RET_OK" and "now = Some p" for p
    using st(2) that st(1) by (auto simp: last_or_min_def)
  show ?case
    using tl hd by (auto simp: call r split: option.splits)
qed

lemma unix_steady_reads_sorted:
  assumes "\<not> RCUTILS_DISABLE_TIME_SANITY_CHECKS cfg"
  shows "sorted_wrt (\<le>s) (unix_steady_reads cfg t calls s)"
proof (induction calls arbitrary: s)
  case Nil
  then show ?case by simp
next
  case (Cons call calls)
  obtain now ts e where call: "call = (now, ts, e)" by (cases call)
  obtain ret s1 where r: "unix_rcutils_steady_time_now cfg t now ts e s = (ret, s1)"
    by (cases "unix_rcutils_steady_time_now cfg t now ts e s")
  note st = unix_steady_step [OF assms r]
  have ge: "\<forall>v \<in> set (unix_steady_reads cfg t calls s1). last_or_min cfg t s1 \<le>s v"
    using unix_steady_reads_ge [OF assms] by blast
  have hd: "mem s1 p = last_or_min cfg t s1" if "ret = RCUTILS_RET_OK" and "now = Some p" for p
    using st(2) that by (auto simp: last_or_min_def)
  show ?case
    using Cons.IH [of s1] ge hd
    by (auto simp: call r sorted_wrt_append split: option.splits)
qed


text \<open>
  C1. In a build with sanity checks, the values one thread obtains from any sequence of
  calls of \<open>rcutils_steady_time_now\<close>, whatever the samples and whatever the pthread calls
  and the allocator return, are non-decreasing: each is at least every value obtained
  before it. After a call that returned \<open>RCUTILS_RET_OK\<close>, a monotonicity check of a
  candidate strictly smaller than the value returned fails with
  \<open>RCUTILS_NON_MONOTONIC_STEADY_TIME\<close> (\<open>pthread_once\<close> returning zero, as it does for a
  valid once control).
\<close>

theorem steady_reads_non_decreasing:
  assumes "\<not> RCUTILS_DISABLE_TIME_SANITY_CHECKS cfg"
  shows "sorted_wrt (\<le>s) (unix_steady_reads cfg t calls s) \<and>
         (\<forall>p timespec_now (e :: check_env) s1 c (e' :: check_env).
            unix_rcutils_steady_time_now cfg t (Some p) timespec_now e s = (RCUTILS_RET_OK, s1) \<and>
            c <s mem s1 p \<and> once_ret (get_env e') = ESUCCESS \<longrightarrow>
            fst (rcutils_check_steady_time_monotonicity_thread_local cfg t c e' s1)
              = RCUTILS_NON_MONOTONIC_STEADY_TIME)"
proof (intro conjI allI impI)
  show "sorted_wrt (\<le>s) (unix_steady_reads cfg t calls s)"
    using assms by (rule unix_steady_reads_sorted)
next
  fix p timespec_now and e :: check_env and s1 c and e' :: check_env
  assume h: "unix_rcutils_steady_time_now cfg t (Some p) timespec_now e s = (RCUTILS_RET_OK, s1) \<and>
            c <s mem s1 p \<and> once_ret (get_env e') = ESUCCESS"
  then have "last_recorded cfg t s1 = Some (mem s1 p)" and "cell_exists cfg t s1"
    using unix_steady_step(2) [OF assms, of t "Some p" timespec_now e s RCUTILS_RET_OK s1]
    by auto
  then show "fst (rcutils_check_steady_time_monotonicity_thread_local cfg t c e' s1)
              = RCUTILS_NON_MONOTONIC_STEADY_TIME"
    using h by (simp add: check_rejects_smaller)
qed

lemma witness_reads:
  "unix_steady_reads build_pthread 0
     [(Some 0, \<lparr> tv_sec = 0, tv_nsec = 100 \<rparr>, ok_check_env 64),
      (Some 0, \<lparr> tv_sec = 0, tv_nsec = 50 \<rparr>, ok_check_env 65),
      (Some 0, \<lparr> tv_sec = 0, tv_nsec = 100 \<rparr>, ok_check_env 66),
      (Some 0, \<lparr> tv_sec = 2, tv_nsec = 0 \<rparr>, ok_check_env 67)] world_init
   = [100, 100, 2000000000]"
  by (simp add: unix_rcutils_steady_time_now_def check_def tls_get_def tls_set_def
      pthread_core_defs eval_defs ok_check_env_def ok_ensure_env_def world_init_def
      rcutils_get_default_allocator_def)

theorem steady_reads_non_decreasing_witness:
  "\<not> RCUTILS_DISABLE_TIME_SANITY_CHECKS build_pthread \<and>
   unix_steady_reads build_pthread 0
     [(Some 0, \<lparr> tv_sec = 0, tv_nsec = 100 \<rparr>, ok_check_env 64),
      (Some 0, \<lparr> tv_sec = 0, tv_nsec = 50 \<rparr>, ok_check_env 65),
      (Some 0, \<lparr> tv_sec = 0, tv_nsec = 100 \<rparr>, ok_check_env 66),
      (Some 0, \<lparr> tv_sec = 2, tv_nsec = 0 \<rparr>, ok_check_env 67)] world_init
     = [100, 100, 2000000000] \<and>
   sorted_wrt (\<le>s) [100, 100, 2000000000 :: int64]"
proof -
  have d: "\<not> RCUTILS_DISABLE_TIME_SANITY_CHECKS build_pthread"
    by (simp add: build_defs)
  note th = steady_reads_non_decreasing [OF d, of 0
        "[(Some 0, \<lparr> tv_sec = 0, tv_nsec = 100 \<rparr>, ok_check_env 64),
          (Some 0, \<lparr> tv_sec = 0, tv_nsec = 50 \<rparr>, ok_check_env 65),
          (Some 0, \<lparr> tv_sec = 0, tv_nsec = 100 \<rparr>, ok_check_env 66),
          (Some 0, \<lparr> tv_sec = 2, tv_nsec = 0 \<rparr>, ok_check_env 67)]" world_init,
        THEN conjunct1]
  show ?thesis
    using th d unfolding witness_reads by simp
qed

section \<open>The lifecycle hooks\<close>

lemmas hook_defs =
  rcutils_steady_time_now_thread_specific_init_def
  rcutils_steady_time_now_thread_specific_fini_def
  rcutils_time_common_ensure_last_steady_timestamp_def
  rcutils_time_common_destroy_last_steady_timestamp_def

lemma init_existing:
  assumes "cell_exists cfg t s" and "once_ret e = ESUCCESS"
  shows "rcutils_steady_time_now_thread_specific_init cfg t a e s = (RCUTILS_RET_OK, s)"
  using assms
  by (auto simp: hook_defs cell_exists_def ensure_existing split: if_splits)

lemma fini_first:
  assumes "r1 = ESUCCESS"
  shows "fst (rcutils_steady_time_now_thread_specific_fini cfg t r1 s) = RCUTILS_RET_OK"
    and "pthread_getspecific t (snd (rcutils_steady_time_now_thread_specific_fini cfg t r1 s))
           = None
         \<or> RCUTILS_DISABLE_TIME_SANITY_CHECKS cfg \<or> \<not> RCUTILS_THREAD_LOCAL_PTHREAD cfg"
    and "released (snd (rcutils_steady_time_now_thread_specific_fini cfg t r1 s)) =
           released s @
           (if \<not> RCUTILS_DISABLE_TIME_SANITY_CHECKS cfg \<and> RCUTILS_THREAD_LOCAL_PTHREAD cfg
            then (case pthread_getspecific t s of
                    Some p \<Rightarrow> [(p, self_allocator (heap s p))]
                  | None \<Rightarrow> [])
            else [])"
  using assms
  by (auto simp: hook_defs pthread_core_defs Let_def split: option.splits)

lemma fini_nothing:
  assumes "pthread_getspecific t s = None
         \<or> RCUTILS_DISABLE_TIME_SANITY_CHECKS cfg \<or> \<not> RCUTILS_THREAD_LOCAL_PTHREAD cfg"
  shows "rcutils_steady_time_now_thread_specific_fini cfg t r s = (RCUTILS_RET_OK, s)"
  using assms
  by (auto simp: hook_defs destroy_last_steady_timestamp_storage_def)

text \<open>
  What holds of the hooks: init called when the thread's cell exists returns
  \<open>RCUTILS_RET_OK\<close> and changes nothing (\<open>init_existing\<close>); a fini whose
  \<open>pthread_setspecific\<close> returns zero returns \<open>RCUTILS_RET_OK\<close>, releases what
  \<open>pthread_getspecific\<close> returned, once, and leaves null under the key (\<open>fini_first\<close>); a
  fini for which \<open>pthread_getspecific\<close> returns null changes nothing (\<open>fini_nothing\<close>).
\<close>

lemma world_with_cell_eq:
  "world_with_cell =
     world_init\<lparr>key_init_once := True, specific := (\<lambda>_. None)(0 := Some 64),
        heap := (heap world_init)(64 := \<lparr> timestamp = INT64_MIN, self_allocator = 5 \<rparr>),
        live := {64}\<rparr>"
  by (simp add: world_with_cell_def hook_defs pthread_core_defs build_defs ok_ensure_env_def
      world_init_def)

text \<open>
  C7. In the pthread build fini is not the no-op that time.h describes, in two runs.

  Before any init or read, \<open>__destroy_last_steady_timestamp_storage\<close> calls
  \<open>pthread_getspecific\<close> with the static key that \<open>pthread_key_create\<close> has not set yet,
  without calling \<open>pthread_once\<close> first. In \<open>world_foreign_key\<close> thread 0 is fresh, and its
  fini returns \<open>RCUTILS_RET_OK\<close> after it has released the other module's object at 200,
  with whatever that object holds where a cell holds its allocator, and has stored null
  under the other module's key.

  In \<open>world_with_cell\<close> thread 0 has its cell at 64. It calls fini twice in a row, and
  \<open>pthread_setspecific\<close> returns a value other than \<open>0\<close>, \<open>ENOMEM\<close> and \<open>EINVAL\<close>, for
  which \<open>__set_last_steady_timestamp\<close> has no case: both calls return \<open>RCUTILS_RET_OK\<close>,
  the key still holds the pointer after the first, and the cell is released twice.
\<close>

theorem fini_before_init_and_twice:
  "fresh_thread build_pthread 0 world_foreign_key \<and>
   released world_foreign_key = [] \<and>
   fst (rcutils_steady_time_now_thread_specific_fini build_pthread 0 ESUCCESS world_foreign_key)
     = RCUTILS_RET_OK \<and>
   released
     (snd (rcutils_steady_time_now_thread_specific_fini build_pthread 0 ESUCCESS
             world_foreign_key)) = [(200, 0)] \<and>
   live
     (snd (rcutils_steady_time_now_thread_specific_fini build_pthread 0 ESUCCESS
             world_foreign_key)) = {} \<and>
   key_zero_specific
     (snd (rcutils_steady_time_now_thread_specific_fini build_pthread 0 ESUCCESS
             world_foreign_key)) 0 = None \<and>
   cell_exists build_pthread 0 world_with_cell \<and>
   released world_with_cell = [] \<and>
   fst (rcutils_steady_time_now_thread_specific_fini build_pthread 0 EAGAIN world_with_cell)
     = RCUTILS_RET_OK \<and>
   fst (rcutils_steady_time_now_thread_specific_fini build_pthread 0 EAGAIN
          (snd (rcutils_steady_time_now_thread_specific_fini build_pthread 0 EAGAIN
                  world_with_cell)))
     = RCUTILS_RET_OK \<and>
   released
     (snd (rcutils_steady_time_now_thread_specific_fini build_pthread 0 EAGAIN
        (snd (rcutils_steady_time_now_thread_specific_fini build_pthread 0 EAGAIN
                world_with_cell))))
     = [(64, 5), (64, 5)]"
  unfolding world_with_cell_eq
  by (simp add: hook_defs pthread_core_defs build_defs fresh_thread_def cell_exists_def
      world_foreign_key_def world_init_def)

section \<open>The statics of the pthread build\<close>

text \<open>
  \<open>keys_inv\<close> holds in the initial state and is kept by every function of the interface.
\<close>

lemma keys_inv_frame [simp]:
  "keys_inv (RCUTILS_SET_ERROR_MSG t m s) = keys_inv s"
  "keys_inv (RCUTILS_CHECK_ARGUMENT_FOR_NULL t m s) = keys_inv s"
  "keys_inv (store_now p v s) = keys_inv s"
  by (simp_all add: keys_inv_def)

lemma keys_inv_world_init: "keys_inv world_init"
  by (simp add: keys_inv_def world_init_def)

lemma keys_inv_set_last:
  "keys_inv s \<Longrightarrow> keys_inv (snd (set_last_steady_timestamp t v r s))"
  by (simp add: set_last_steady_timestamp_def pthread_setspecific_def keys_inv_def Let_def
      split: errno_t.splits)

lemma keys_inv_init:
  "keys_inv s \<Longrightarrow> keys_inv (snd (rcutils_steady_time_now_thread_specific_init cfg t a e s))"
  by (simp add: hook_defs ensure_keys_inv)

lemma keys_inv_fini:
  "keys_inv s \<Longrightarrow> keys_inv (snd (rcutils_steady_time_now_thread_specific_fini cfg t r s))"
  by (auto simp: hook_defs pthread_core_defs keys_inv_def Let_def
      split: option.splits errno_t.splits)

lemma keys_inv_get:
  assumes "keys_inv s"
  shows "keys_inv (snd (rcutils_time_common_get_last_steady_timestamp_thread_local cfg t e s))"
proof -
  obtain ret s1 where en:
    "ensure_last_steady_timestamp_storage t rcutils_get_default_allocator e s = (ret, s1)"
    by (cases "ensure_last_steady_timestamp_storage t rcutils_get_default_allocator e s")
  have "keys_inv s1"
    using ensure_keys_inv [OF assms, of t rcutils_get_default_allocator e] en by simp
  then show ?thesis
    using assms by (simp add: tls_get_def en split: option.splits)
qed

lemma keys_inv_set:
  assumes "keys_inv s"
  shows "keys_inv (snd (rcutils_time_common_set_last_steady_timestamp_thread_local cfg t c e r s))"
proof -
  obtain ret s1 where en:
    "ensure_last_steady_timestamp_storage t rcutils_get_default_allocator e s = (ret, s1)"
    by (cases "ensure_last_steady_timestamp_storage t rcutils_get_default_allocator e s")
  have s1: "keys_inv s1"
    using ensure_keys_inv [OF assms, of t rcutils_get_default_allocator e] en by simp
  have "keys_inv (snd (set_last_steady_timestamp t v r (s1\<lparr>heap := h\<rparr>)))" for v h
    using s1 by (intro keys_inv_set_last) (simp add: keys_inv_def)
  then show ?thesis
    using assms s1
    by (simp add: tls_set_def en keys_inv_def split: option.splits)
qed

lemma keys_inv_check:
  assumes "keys_inv s"
  shows "keys_inv (snd (rcutils_check_steady_time_monotonicity_thread_local cfg t c e s))"
proof -
  obtain g s1 where g:
    "rcutils_time_common_get_last_steady_timestamp_thread_local cfg t (get_env e) s = (g, s1)"
    by (cases "rcutils_time_common_get_last_steady_timestamp_thread_local cfg t (get_env e) s")
  have "keys_inv s1"
    using keys_inv_get [OF assms, of cfg t "get_env e"] g by simp
  then show ?thesis
    by (simp add: check_def g keys_inv_set split: sum.splits)
qed

lemma keys_inv_unix_steady:
  assumes "keys_inv s"
  shows "keys_inv (snd (unix_rcutils_steady_time_now cfg t now timespec_now e s))"
proof -
  let ?c = "RCUTILS_S_TO_NS (tv_sec timespec_now) + tv_nsec timespec_now"
  obtain ret s1 where chk:
    "rcutils_check_steady_time_monotonicity_thread_local cfg t ?c e s = (ret, s1)"
    by (cases "rcutils_check_steady_time_monotonicity_thread_local cfg t ?c e s")
  have "keys_inv s1"
    using keys_inv_check [OF assms, of cfg t ?c e] chk by simp
  then show ?thesis
    using assms
    by (simp add: unix_rcutils_steady_time_now_def Let_def chk split: option.splits)
qed

lemma keys_inv_system:
  assumes "keys_inv s"
  shows "keys_inv (snd (unix_rcutils_system_time_now cfg t now timespec_now s))"
    and "keys_inv (snd (win32_rcutils_system_time_now t now ft s))"
  using assms
  by (simp_all add: unix_rcutils_system_time_now_def win32_rcutils_system_time_now_def
      Let_def split: option.splits)

lemma keys_inv_win32_steady:
  assumes "keys_inv s"
    and "win32_rcutils_steady_time_now cfg t now cpu_frequency performance_count e s = Some r"
  shows "keys_inv (snd r)"
proof -
  let ?c = "RCUTILS_S_TO_NS (sdiv64 performance_count cpu_frequency) +
         sdiv64 (RCUTILS_S_TO_NS (smod64 performance_count cpu_frequency)) cpu_frequency"
  obtain ret s1 where chk:
    "rcutils_check_steady_time_monotonicity_thread_local cfg t ?c e s = (ret, s1)"
    by (cases "rcutils_check_steady_time_monotonicity_thread_local cfg t ?c e s")
  have "keys_inv s1"
    using keys_inv_check [OF assms(1), of cfg t ?c e] chk by simp
  then show ?thesis
    using assms
    by (auto simp: win32_rcutils_steady_time_now_def Let_def chk
        split: option.splits if_splits)
qed

section \<open>Failures of the initialization in the pthread build\<close>

lemma ensure_failure_unset:
  assumes "specific s t = None"
    and "ensure_last_steady_timestamp_storage t a e s = (ret, s1)"
    and "ret \<noteq> RCUTILS_RET_OK"
  shows "specific s1 t = None"
  using ensure_cell [OF assms(2)] assms(1,3) by auto

lemma ensure_retry_ok:
  assumes "specific s t = None" and "make_pthread_keys_ret s = RCUTILS_RET_OK"
  shows "ensure_last_steady_timestamp_storage t a (ok_ensure_env p) s =
     (RCUTILS_RET_OK,
      s\<lparr>key_init_once := True, specific := (specific s)(t := Some p),
        heap := (heap s)(p := \<lparr> timestamp = INT64_MIN, self_allocator = a \<rparr>),
        live := insert p (live s)\<rparr>)"
  using assms
  by (simp add: pthread_core_defs ok_ensure_env_def Let_def)

lemma ensure_latched:
  assumes "key_init_once s" and "make_pthread_keys_ret s \<noteq> RCUTILS_RET_OK"
  shows "once_ret e = ESUCCESS \<Longrightarrow>
           ensure_last_steady_timestamp_storage t a e s = (make_pthread_keys_ret s, s)"
    and "fst (ensure_last_steady_timestamp_storage t a e s) \<noteq> RCUTILS_RET_OK"
  using assms
  by (auto simp: ensure_last_steady_timestamp_storage_def pthread_once_def Let_def
      split: errno_t.splits)

lemma check_after_retry_ok:
  assumes "\<not> RCUTILS_DISABLE_TIME_SANITY_CHECKS cfg" and "RCUTILS_THREAD_LOCAL_PTHREAD cfg"
    and "specific s t = None" and "make_pthread_keys_ret s = RCUTILS_RET_OK"
  shows "fst (rcutils_check_steady_time_monotonicity_thread_local cfg t c (ok_check_env p) s)
         = RCUTILS_RET_OK"
proof -
  let ?s1 = "s\<lparr>key_init_once := True, specific := (specific s)(t := Some p),
        heap := (heap s)(p := \<lparr> timestamp = INT64_MIN,
                                 self_allocator = rcutils_get_default_allocator \<rparr>),
        live := insert p (live s)\<rparr>"
  have g: "rcutils_time_common_get_last_steady_timestamp_thread_local cfg t
             (get_env (ok_check_env p)) s = (Inr INT64_MIN, ?s1)"
    using assms
    by (simp add: pthread_get [OF assms(1,2) ensure_retry_ok [OF assms(3,4)]]
        ok_check_env_def)
  have e: "ensure_last_steady_timestamp_storage t rcutils_get_default_allocator
             (ok_ensure_env p) ?s1 = (RCUTILS_RET_OK, ?s1)"
    using assms(4) by (intro ensure_existing) (simp_all add: ok_ensure_env_def)
  have chk: "rcutils_check_steady_time_monotonicity_thread_local cfg t c (ok_check_env p) s =
       rcutils_time_common_set_last_steady_timestamp_thread_local cfg t c
         (set_env (ok_check_env p)) (set_setspecific_ret (ok_check_env p)) ?s1"
    by (rule check_Inr_not_less [OF g not_sless_INT64_MIN])
  show ?thesis
    unfolding chk using assms(1,2,4)
    by (simp add: tls_set_def ok_check_env_def e pthread_getspecific_def
        set_last_steady_timestamp_def pthread_setspecific_def key_created_def)
qed

lemma check_latched:
  assumes "\<not> RCUTILS_DISABLE_TIME_SANITY_CHECKS cfg" and "RCUTILS_THREAD_LOCAL_PTHREAD cfg"
    and "key_init_once s" and "make_pthread_keys_ret s \<noteq> RCUTILS_RET_OK"
  shows "fst (rcutils_check_steady_time_monotonicity_thread_local cfg t c e s)
         \<noteq> RCUTILS_RET_OK"
proof -
  obtain ret s1 where en:
    "ensure_last_steady_timestamp_storage t rcutils_get_default_allocator (get_env e) s
     = (ret, s1)"
    by (cases "ensure_last_steady_timestamp_storage t rcutils_get_default_allocator
                 (get_env e) s")
  have "ret \<noteq> RCUTILS_RET_OK"
    using ensure_latched(2) [OF assms(3,4), of t rcutils_get_default_allocator "get_env e"] en
    by simp
  then show ?thesis
    using pthread_get [OF assms(1,2) en] by (simp add: check_Inl)
qed

lemma check_latched_status:
  assumes "\<not> RCUTILS_DISABLE_TIME_SANITY_CHECKS cfg" and "RCUTILS_THREAD_LOCAL_PTHREAD cfg"
    and "key_init_once s" and "make_pthread_keys_ret s \<noteq> RCUTILS_RET_OK"
    and "once_ret (get_env e) = ESUCCESS"
  shows "rcutils_check_steady_time_monotonicity_thread_local cfg t c e s
         = (make_pthread_keys_ret s, s)"
proof -
  have en: "ensure_last_steady_timestamp_storage t rcutils_get_default_allocator (get_env e) s
            = (make_pthread_keys_ret s, s)"
    using ensure_latched(1) [OF assms(3,4) assms(5)] .
  have "rcutils_time_common_get_last_steady_timestamp_thread_local cfg t (get_env e) s
        = (Inl (make_pthread_keys_ret s), s)"
    using pthread_get [OF assms(1,2) en] assms(4) by simp
  then show ?thesis by (rule check_Inl)
qed

text \<open>
  C6, as amended. In the pthread build, a call of init on a thread without a cell that
  does not return \<open>RCUTILS_RET_OK\<close> leaves the thread without a cell. If the key creation
  has not failed, a later init or monotonicity check, in an environment where the pthread
  calls return zero and \<open>allocate\<close> returns \<open>p\<close>, succeeds, and init gives the thread a
  cell at \<open>p\<close> that holds \<open>INT64_MIN\<close>. If the key creation has failed, its status is
  recorded: every later init and every later monotonicity check returns the recorded
  status and changes nothing when \<open>pthread_once\<close> returns zero, and no later init or
  monotonicity check returns \<open>RCUTILS_RET_OK\<close>, whatever the environment.
\<close>

theorem init_failure_retry:
  assumes "\<not> RCUTILS_DISABLE_TIME_SANITY_CHECKS cfg" and "RCUTILS_THREAD_LOCAL_PTHREAD cfg"
    and "keys_inv s" and "specific s t = None"
    and "rcutils_steady_time_now_thread_specific_init cfg t a e s = (ret, s1)"
    and "ret \<noteq> RCUTILS_RET_OK"
  shows "specific s1 t = None \<and>
    (make_pthread_keys_ret s1 = RCUTILS_RET_OK \<longrightarrow>
       fst (rcutils_steady_time_now_thread_specific_init cfg t a' (ok_ensure_env p) s1)
         = RCUTILS_RET_OK \<and>
       specific (snd (rcutils_steady_time_now_thread_specific_init cfg t a' (ok_ensure_env p) s1))
         t = Some p \<and>
       heap (snd (rcutils_steady_time_now_thread_specific_init cfg t a' (ok_ensure_env p) s1))
         p = \<lparr> timestamp = INT64_MIN, self_allocator = a' \<rparr> \<and>
       fst (rcutils_check_steady_time_monotonicity_thread_local cfg t c (ok_check_env p) s1)
         = RCUTILS_RET_OK) \<and>
    (make_pthread_keys_ret s1 \<noteq> RCUTILS_RET_OK \<longrightarrow>
       (\<forall>e' :: ensure_env. once_ret e' = ESUCCESS \<longrightarrow>
          rcutils_steady_time_now_thread_specific_init cfg t a' e' s1
            = (make_pthread_keys_ret s1, s1)) \<and>
       (\<forall>e' :: ensure_env.
          fst (rcutils_steady_time_now_thread_specific_init cfg t a' e' s1) \<noteq> RCUTILS_RET_OK) \<and>
       (\<forall>e' :: check_env.
          fst (rcutils_check_steady_time_monotonicity_thread_local cfg t c e' s1)
            \<noteq> RCUTILS_RET_OK) \<and>
       (\<forall>e' :: check_env. once_ret (get_env e') = ESUCCESS \<longrightarrow>
          rcutils_check_steady_time_monotonicity_thread_local cfg t c e' s1
            = (make_pthread_keys_ret s1, s1)))"
proof -
  have en: "ensure_last_steady_timestamp_storage t a e s = (ret, s1)"
    using assms(1,2,5) by (simp add: hook_defs)
  have unset: "specific s1 t = None"
    using ensure_failure_unset [OF assms(4) en assms(6)] .
  have inv: "keys_inv s1"
    using ensure_keys_inv [OF assms(3), of t a e] en by simp
  have init: "rcutils_steady_time_now_thread_specific_init cfg t a' e' s1
              = ensure_last_steady_timestamp_storage t a' e' s1" for e'
    using assms(1,2) by (simp add: hook_defs)
  have ok: ?thesis if "make_pthread_keys_ret s1 = RCUTILS_RET_OK"
    using that unset check_after_retry_ok [OF assms(1,2) unset that]
    by (simp add: init ensure_retry_ok)
  have bad: ?thesis if k: "make_pthread_keys_ret s1 \<noteq> RCUTILS_RET_OK"
  proof -
    from inv k have once: "key_init_once s1" by (auto simp: keys_inv_def)
    show ?thesis
      using k unset ensure_latched [OF once k] check_latched [OF assms(1,2) once k]
        check_latched_status [OF assms(1,2) once k]
      by (simp add: init)
  qed
  show ?thesis using ok bad by blast
qed


lemma world_key_failed_eq:
  "world_key_failed =
     world_init\<lparr>error_msg := (\<lambda>_. None)(0 := Some ''Insufficient memory exists to create the key.''),
       key_init_once := True, make_pthread_keys_ret := RCUTILS_RET_BAD_ALLOC\<rparr>"
  by (simp add: world_key_failed_def hook_defs pthread_core_defs RCUTILS_SET_ERROR_MSG_def
      build_defs key_create_enomem_env_def world_init_def)

lemma world_key_failed_sel:
  "key_init_once world_key_failed"
  "make_pthread_keys_ret world_key_failed = RCUTILS_RET_BAD_ALLOC"
  "specific world_key_failed 0 = None"
  by (simp_all add: world_key_failed_eq world_init_def)

text \<open>
  C6 as stated fails: thread 0 calls init, \<open>pthread_key_create\<close> returns \<open>ENOMEM\<close> and init
  returns \<open>RCUTILS_RET_BAD_ALLOC\<close>. The thread then calls init again, and
  \<open>rcutils_steady_time_now\<close>, in an environment where every pthread call returns zero and
  \<open>allocate\<close> succeeds: both return \<open>RCUTILS_RET_BAD_ALLOC\<close> again, the init leaves the
  state exactly as it was, and the thread still has no cell. The key creation is not
  tried again.
\<close>

theorem init_retry_after_key_failure_counterexample:
  "fst (rcutils_steady_time_now_thread_specific_init build_pthread 0
          rcutils_get_default_allocator key_create_enomem_env world_init)
     = RCUTILS_RET_BAD_ALLOC \<and>
   specific world_key_failed 0 = None \<and>
   rcutils_steady_time_now_thread_specific_init build_pthread 0
       rcutils_get_default_allocator (ok_ensure_env 64) world_key_failed
     = (RCUTILS_RET_BAD_ALLOC, world_key_failed) \<and>
   fst (unix_rcutils_steady_time_now build_pthread 0 (Some 0)
          \<lparr> tv_sec = 0, tv_nsec = 100 \<rparr> (ok_check_env 64) world_key_failed)
     = RCUTILS_RET_BAD_ALLOC"
proof (intro conjI)
  show "fst (rcutils_steady_time_now_thread_specific_init build_pthread 0
          rcutils_get_default_allocator key_create_enomem_env world_init)
     = RCUTILS_RET_BAD_ALLOC"
    by (simp add: hook_defs pthread_core_defs build_defs key_create_enomem_env_def world_init_def)
  show "specific world_key_failed 0 = None"
    by (rule world_key_failed_sel)
  have en: "ensure_last_steady_timestamp_storage 0 a (ok_ensure_env 64) world_key_failed
            = (RCUTILS_RET_BAD_ALLOC, world_key_failed)" for a
    using ensure_latched(1) [of world_key_failed "ok_ensure_env 64" 0 a]
    by (simp add: world_key_failed_sel ok_ensure_env_def)
  show "rcutils_steady_time_now_thread_specific_init build_pthread 0
       rcutils_get_default_allocator (ok_ensure_env 64) world_key_failed
     = (RCUTILS_RET_BAD_ALLOC, world_key_failed)"
    by (simp add: hook_defs build_defs en)
  have "rcutils_time_common_get_last_steady_timestamp_thread_local build_pthread 0
          (get_env (ok_check_env 64)) world_key_failed
        = (Inl RCUTILS_RET_BAD_ALLOC, world_key_failed)"
    by (simp add: tls_get_def build_defs ok_check_env_def en)
  then have "rcutils_check_steady_time_monotonicity_thread_local build_pthread 0 100
               (ok_check_env 64) world_key_failed
             = (RCUTILS_RET_BAD_ALLOC, world_key_failed)"
    by (rule check_Inl)
  then show "fst (unix_rcutils_steady_time_now build_pthread 0 (Some 0)
          \<lparr> tv_sec = 0, tv_nsec = 100 \<rparr> (ok_check_env 64) world_key_failed)
     = RCUTILS_RET_BAD_ALLOC"
    by (simp add: unix_rcutils_steady_time_now_def eval_defs)
qed

theorem init_failure_retry_witness:
  "\<not> RCUTILS_DISABLE_TIME_SANITY_CHECKS build_pthread \<and>
   RCUTILS_THREAD_LOCAL_PTHREAD build_pthread \<and>
   keys_inv world_init \<and> specific world_init 0 = None \<and>
   fst (rcutils_steady_time_now_thread_specific_init build_pthread 0 5 allocate_null_env
          world_init) = RCUTILS_RET_BAD_ALLOC \<and>
   make_pthread_keys_ret
     (snd (rcutils_steady_time_now_thread_specific_init build_pthread 0 5 allocate_null_env
             world_init)) = RCUTILS_RET_OK \<and>
   specific
     (snd (rcutils_steady_time_now_thread_specific_init build_pthread 0 5 allocate_null_env
             world_init)) 0 = None \<and>
   fst (rcutils_steady_time_now_thread_specific_init build_pthread 0 7 (ok_ensure_env 64)
     (snd (rcutils_steady_time_now_thread_specific_init build_pthread 0 5 allocate_null_env
             world_init))) = RCUTILS_RET_OK"
proof -
  let ?x = "rcutils_steady_time_now_thread_specific_init build_pthread 0 5 allocate_null_env
              world_init"
  have d: "\<not> RCUTILS_DISABLE_TIME_SANITY_CHECKS build_pthread"
    and p: "RCUTILS_THREAD_LOCAL_PTHREAD build_pthread"
    by (simp_all add: build_defs)
  have k: "keys_inv world_init" and n: "specific world_init 0 = None"
    by (simp_all add: keys_inv_def world_init_def)
  have r: "fst ?x = RCUTILS_RET_BAD_ALLOC"
    and m: "make_pthread_keys_ret (snd ?x) = RCUTILS_RET_OK"
    by (simp_all add: hook_defs pthread_core_defs build_defs allocate_null_env_def world_init_def)
  have x: "?x = (fst ?x, snd ?x)" by simp
  have ne: "fst ?x \<noteq> RCUTILS_RET_OK" using r by simp
  show ?thesis
    using init_failure_retry [OF d p k n x ne, of 7 64] d p k n r m by simp
qed

section \<open>A read after fini\<close>

text \<open>
  In the pthread build, fini releases the cell, and the next check, in an environment
  where the pthread calls return zero and \<open>allocate\<close> succeeds, accepts every candidate:
  the history of the thread is lost.
\<close>

lemma pthread_fini_loses_history:
  assumes "\<not> RCUTILS_DISABLE_TIME_SANITY_CHECKS cfg" and "RCUTILS_THREAD_LOCAL_PTHREAD cfg"
    and "key_init_once s" and "make_pthread_keys_ret s = RCUTILS_RET_OK"
  shows "fst (rcutils_steady_time_now_thread_specific_fini cfg t ESUCCESS s) = RCUTILS_RET_OK"
    and "specific (snd (rcutils_steady_time_now_thread_specific_fini cfg t ESUCCESS s)) t = None"
    and "fst (rcutils_check_steady_time_monotonicity_thread_local cfg t c (ok_check_env p)
               (snd (rcutils_steady_time_now_thread_specific_fini cfg t ESUCCESS s)))
         = RCUTILS_RET_OK"
proof -
  let ?s1 = "snd (rcutils_steady_time_now_thread_specific_fini cfg t ESUCCESS s)"
  show "fst (rcutils_steady_time_now_thread_specific_fini cfg t ESUCCESS s) = RCUTILS_RET_OK"
    by (simp add: fini_first(1))
  have k: "key_init_once ?s1 \<and> make_pthread_keys_ret ?s1 = RCUTILS_RET_OK"
    using assms
    by (auto simp: hook_defs pthread_core_defs Let_def split: option.splits)
  show n: "specific ?s1 t = None"
    using fini_first(2) [OF refl, where cfg = cfg and t = t and s = s] assms(1,2) k
    by (simp add: pthread_getspecific_def key_created_def)
  show "fst (rcutils_check_steady_time_monotonicity_thread_local cfg t c (ok_check_env p) ?s1)
         = RCUTILS_RET_OK"
    using check_after_retry_ok [OF assms(1,2) n] k by simp
qed

text \<open>
  C8. In the build with \<open>_Thread_local\<close>, thread 0 of a new process reads the steady time
  with the sample 0 s 100 ns and obtains 100; it calls fini, which returns
  \<open>RCUTILS_RET_OK\<close> and changes nothing; its next read, with the sample 0 s 50 ns, returns
  \<open>RCUTILS_NON_MONOTONIC_STEADY_TIME\<close>: the history has been kept, where time.h says
  that fini prevents later reads from detecting a violation with earlier ones. The same
  calls in the pthread build end with \<open>RCUTILS_RET_OK\<close> and the value 50.
\<close>

theorem fini_keeps_history_thread_local:
  "unix_steady_reads build_thread_local 0
     [(Some 0, \<lparr> tv_sec = 0, tv_nsec = 100 \<rparr>, ok_check_env 64)] world_init = [100] \<and>
   rcutils_steady_time_now_thread_specific_fini build_thread_local 0 ESUCCESS
     (snd (unix_rcutils_steady_time_now build_thread_local 0 (Some 0)
             \<lparr> tv_sec = 0, tv_nsec = 100 \<rparr> (ok_check_env 64) world_init))
   = (RCUTILS_RET_OK,
      snd (unix_rcutils_steady_time_now build_thread_local 0 (Some 0)
             \<lparr> tv_sec = 0, tv_nsec = 100 \<rparr> (ok_check_env 64) world_init)) \<and>
   fst (unix_rcutils_steady_time_now build_thread_local 0 (Some 0)
          \<lparr> tv_sec = 0, tv_nsec = 50 \<rparr> (ok_check_env 65)
          (snd (rcutils_steady_time_now_thread_specific_fini build_thread_local 0 ESUCCESS
             (snd (unix_rcutils_steady_time_now build_thread_local 0 (Some 0)
                     \<lparr> tv_sec = 0, tv_nsec = 100 \<rparr> (ok_check_env 64) world_init)))))
   = RCUTILS_NON_MONOTONIC_STEADY_TIME \<and>
   unix_steady_reads build_pthread 0
     [(Some 0, \<lparr> tv_sec = 0, tv_nsec = 100 \<rparr>, ok_check_env 64)] world_init = [100] \<and>
   fst (rcutils_steady_time_now_thread_specific_fini build_pthread 0 ESUCCESS
     (snd (unix_rcutils_steady_time_now build_pthread 0 (Some 0)
             \<lparr> tv_sec = 0, tv_nsec = 100 \<rparr> (ok_check_env 64) world_init)))
   = RCUTILS_RET_OK \<and>
   unix_steady_reads build_pthread 0
     [(Some 0, \<lparr> tv_sec = 0, tv_nsec = 50 \<rparr>, ok_check_env 65)]
     (snd (rcutils_steady_time_now_thread_specific_fini build_pthread 0 ESUCCESS
        (snd (unix_rcutils_steady_time_now build_pthread 0 (Some 0)
                \<lparr> tv_sec = 0, tv_nsec = 100 \<rparr> (ok_check_env 64) world_init))))
   = [50]"
  by (simp add: unix_rcutils_steady_time_now_def check_def tls_get_def tls_set_def
      hook_defs pthread_core_defs eval_defs ok_check_env_def ok_ensure_env_def world_init_def
      rcutils_get_default_allocator_def store_now_def)

section \<open>Overflow\<close>

text \<open>
  In a build with sanity checks, with a non-null destination and a sample that is not
  negative, whenever the seconds exceed \<open>INT64_MAX / 1000000000\<close>, or the remainder is
  positive and the seconds in nanoseconds exceed \<open>INT64_MAX\<close> minus the remainder, both
  reads of time_unix.c fail and write nothing. The steady-time read returns
  \<open>RCUTILS_CALCULATION_OVERFLOW\<close>; the system-time read returns \<open>RCUTILS_RET_ERROR\<close>.
\<close>

lemma unix_overflow_detected:
  assumes "\<not> RCUTILS_DISABLE_TIME_SANITY_CHECKS cfg"
    and "\<not> WOULD_BE_NEGATIVE (tv_sec timespec_now) (tv_nsec timespec_now)"
    and "sdiv64 INT64_MAX 1000000000 <s tv_sec timespec_now \<or>
         (0 <s tv_nsec timespec_now \<and>
          INT64_MAX - tv_nsec timespec_now <s RCUTILS_S_TO_NS (tv_sec timespec_now))"
  shows "unix_rcutils_steady_time_now cfg t (Some p) timespec_now e s =
           (RCUTILS_CALCULATION_OVERFLOW, RCUTILS_SET_ERROR_MSG t ''steady time overflow'' s)"
    and "unix_rcutils_system_time_now cfg t (Some p) timespec_now s =
           (RCUTILS_RET_ERROR, RCUTILS_SET_ERROR_MSG t ''system time overflow'' s)"
  using assms
  by (auto simp: unix_rcutils_steady_time_now_def unix_rcutils_system_time_now_def Let_def)

lemma large_seconds_not_negative:
  assumes "sdiv64 INT64_MAX 1000000000 <s seconds"
  shows "\<not> WOULD_BE_NEGATIVE seconds subseconds"
  using assms
  by (auto simp: WOULD_BE_NEGATIVE_def INT64_MAX_div_1e9 word_sless_alt)

text \<open>
  A read of time_unix.c that returns \<open>RCUTILS_RET_OK\<close> in a build with sanity checks has
  stored the exact sum, \<open>tv_sec * 1000000000 + tv_nsec\<close>, not a wrapped one.
\<close>

lemma checked_sum_exact:
  assumes "\<not> WOULD_BE_NEGATIVE seconds subseconds"
    and "\<not> sdiv64 INT64_MAX 1000000000 <s seconds"
    and "\<not> (0 <s subseconds \<and> INT64_MAX - subseconds <s RCUTILS_S_TO_NS seconds)"
  shows "sint (RCUTILS_S_TO_NS seconds + subseconds) = sint seconds * 1000000000 + sint subseconds"
proof -
  have s0: "0 \<le> sint seconds" and s1: "sint seconds \<le> 9223372036"
    using assms(1,2)
    by (auto simp: WOULD_BE_NEGATIVE_def INT64_MAX_div_1e9 word_sless_alt)
  have m: "sint (RCUTILS_S_TO_NS seconds) = sint seconds * 1000000000"
  proof -
    have "sint (seconds * 1000000000) = signed_take_bit 63 (sint seconds * 1000000000)"
      by (simp add: sint_word_ariths)
    also have "\<dots> = sint seconds * 1000000000"
      using s0 s1 by (intro signed_take_bit_int_eq_self) auto
    finally show ?thesis by (simp add: RCUTILS_S_TO_NS_def)
  qed
  have n: "- (2 ^ 63) \<le> sint subseconds" "sint subseconds < 2 ^ 63"
    using sint_ge [of subseconds] sint_lt [of subseconds] by simp_all
  have up: "sint seconds * 1000000000 + sint subseconds < 2 ^ 63"
  proof (cases "0 < sint subseconds")
    case True
    have "sint (INT64_MAX - subseconds) = signed_take_bit 63 (sint INT64_MAX - sint subseconds)"
      by (simp add: sint_word_ariths)
    also have "\<dots> = sint INT64_MAX - sint subseconds"
      using True n by (intro signed_take_bit_int_eq_self) (auto simp: sint_INT64_MAX)
    finally have "sint (INT64_MAX - subseconds) = 2 ^ 63 - 1 - sint subseconds"
      by (simp add: sint_INT64_MAX)
    with assms(3) True m show ?thesis
      by (auto simp: word_sless_alt)
  next
    case False
    with s1 show ?thesis by simp
  qed
  have lo: "- (2 ^ 63) \<le> sint seconds * 1000000000 + sint subseconds"
    using s0 n by simp
  have "sint (RCUTILS_S_TO_NS seconds + subseconds)
        = signed_take_bit 63 (sint (RCUTILS_S_TO_NS seconds) + sint subseconds)"
    by (simp add: sint_word_ariths)
  also have "\<dots> = sint seconds * 1000000000 + sint subseconds"
    unfolding m using up lo by (intro signed_take_bit_int_eq_self) auto
  finally show ?thesis .
qed

lemma unix_ok_exact:
  assumes "\<not> RCUTILS_DISABLE_TIME_SANITY_CHECKS cfg"
  shows "fst (unix_rcutils_system_time_now cfg t (Some p) timespec_now s) = RCUTILS_RET_OK \<Longrightarrow>
         sint (mem (snd (unix_rcutils_system_time_now cfg t (Some p) timespec_now s)) p)
           = sint (tv_sec timespec_now) * 1000000000 + sint (tv_nsec timespec_now)"
    and "fst (unix_rcutils_steady_time_now cfg t (Some p) timespec_now e s) = RCUTILS_RET_OK \<Longrightarrow>
         sint (mem (snd (unix_rcutils_steady_time_now cfg t (Some p) timespec_now e s)) p)
           = sint (tv_sec timespec_now) * 1000000000 + sint (tv_nsec timespec_now)"
proof -
  let ?c = "RCUTILS_S_TO_NS (tv_sec timespec_now) + tv_nsec timespec_now"
  show "sint (mem (snd (unix_rcutils_system_time_now cfg t (Some p) timespec_now s)) p)
           = sint (tv_sec timespec_now) * 1000000000 + sint (tv_nsec timespec_now)"
    if "fst (unix_rcutils_system_time_now cfg t (Some p) timespec_now s) = RCUTILS_RET_OK"
    using that assms checked_sum_exact [of "tv_sec timespec_now" "tv_nsec timespec_now"]
    by (auto simp: unix_rcutils_system_time_now_def Let_def split: if_splits)
  obtain ret s1 where chk:
    "rcutils_check_steady_time_monotonicity_thread_local cfg t ?c e s = (ret, s1)"
    by (cases "rcutils_check_steady_time_monotonicity_thread_local cfg t ?c e s")
  show "sint (mem (snd (unix_rcutils_steady_time_now cfg t (Some p) timespec_now e s)) p)
           = sint (tv_sec timespec_now) * 1000000000 + sint (tv_nsec timespec_now)"
    if "fst (unix_rcutils_steady_time_now cfg t (Some p) timespec_now e s) = RCUTILS_RET_OK"
    using that assms checked_sum_exact [of "tv_sec timespec_now" "tv_nsec timespec_now"]
    by (auto simp: unix_rcutils_steady_time_now_def Let_def chk split: if_splits)
qed


text \<open>
  C3. With the sample of \<open>INT64_MAX / 1000000000 + 1\<close> seconds, that is 9223372037 s and
  0 ns, and sanity checks enabled, \<open>rcutils_steady_time_now\<close> of time_unix.c returns
  \<open>RCUTILS_CALCULATION_OVERFLOW\<close>, and \<open>rcutils_system_time_now\<close> of time_unix.c detects
  the overflow as well, writes nothing, but returns \<open>RCUTILS_RET_ERROR\<close>, the status of
  an unspecified error, where \<open>rcutils_system_time_now\<close> of time_win32.c returns
  \<open>RCUTILS_CALCULATION_OVERFLOW\<close> for its overflow.
\<close>

theorem unix_system_time_overflow_status:
  "unix_rcutils_system_time_now build_thread_local 0 (Some 0)
     \<lparr> tv_sec = 9223372037, tv_nsec = 0 \<rparr> world_init
   = (RCUTILS_RET_ERROR, RCUTILS_SET_ERROR_MSG 0 ''system time overflow'' world_init) \<and>
   unix_rcutils_steady_time_now build_thread_local 0 (Some 0)
     \<lparr> tv_sec = 9223372037, tv_nsec = 0 \<rparr> (ok_check_env 64) world_init
   = (RCUTILS_CALCULATION_OVERFLOW,
      RCUTILS_SET_ERROR_MSG 0 ''steady time overflow'' world_init) \<and>
   win32_rcutils_system_time_now 0 (Some 0)
     \<lparr> dwLowDateTime = 0, dwHighDateTime = 0x03000000 \<rparr> world_init
   = (RCUTILS_CALCULATION_OVERFLOW,
      RCUTILS_SET_ERROR_MSG 0 ''system time overflow'' world_init)"
  by (simp add: unix_rcutils_system_time_now_def unix_rcutils_steady_time_now_def
      win32_rcutils_system_time_now_def eval_defs word_cat_eq)

section \<open>The build without sanity checks\<close>

text \<open>
  C10. When \<open>RCUTILS_DISABLE_TIME_SANITY_CHECKS\<close> is enabled, \<open>rcutils_system_time_now\<close>
  and \<open>rcutils_steady_time_now\<close> of time_unix.c return \<open>RCUTILS_RET_INVALID_ARGUMENT\<close>
  for a null destination, \<open>RCUTILS_RET_ERROR\<close> with the message of a negative time for a
  negative sample, and otherwise \<open>RCUTILS_RET_OK\<close> with the wrapped sum stored: for no
  sample do they return an overflow error. The private functions of time_common.c keep
  no state in that build: the monotonicity check returns \<open>RCUTILS_RET_OK\<close> and changes
  nothing.
\<close>

theorem disabled_sanity_checks_no_overflow_check:
  "RCUTILS_DISABLE_TIME_SANITY_CHECKS cfg \<longrightarrow>
      unix_rcutils_system_time_now cfg t now timespec_now s =
        (case now of
           None \<Rightarrow> (RCUTILS_RET_INVALID_ARGUMENT, RCUTILS_CHECK_ARGUMENT_FOR_NULL t ''now'' s)
         | Some p \<Rightarrow>
             if WOULD_BE_NEGATIVE (tv_sec timespec_now) (tv_nsec timespec_now)
             then (RCUTILS_RET_ERROR, RCUTILS_SET_ERROR_MSG t ''unexpected negative time'' s)
             else (RCUTILS_RET_OK,
                   store_now p (RCUTILS_S_TO_NS (tv_sec timespec_now) + tv_nsec timespec_now) s))
      \<and>
      unix_rcutils_steady_time_now cfg t now timespec_now e s =
        (case now of
           None \<Rightarrow> (RCUTILS_RET_INVALID_ARGUMENT, RCUTILS_CHECK_ARGUMENT_FOR_NULL t ''now'' s)
         | Some p \<Rightarrow>
             if WOULD_BE_NEGATIVE (tv_sec timespec_now) (tv_nsec timespec_now)
             then (RCUTILS_RET_ERROR, RCUTILS_SET_ERROR_MSG t ''unexpected negative time'' s)
             else (RCUTILS_RET_OK,
                   store_now p (RCUTILS_S_TO_NS (tv_sec timespec_now) + tv_nsec timespec_now) s))
      \<and>
      fst (unix_rcutils_system_time_now cfg t now timespec_now s)
        \<noteq> RCUTILS_CALCULATION_OVERFLOW \<and>
      fst (unix_rcutils_steady_time_now cfg t now timespec_now e s)
        \<noteq> RCUTILS_CALCULATION_OVERFLOW \<and>
      rcutils_check_steady_time_monotonicity_thread_local cfg t c e s = (RCUTILS_RET_OK, s)"
  by (auto simp: unix_rcutils_system_time_now_def unix_rcutils_steady_time_now_def Let_def
      check_def tls_get_def tls_set_def not_sless_INT64_MIN
      split: option.splits if_splits)

theorem disabled_sanity_checks_no_overflow_check_witness:
  "RCUTILS_DISABLE_TIME_SANITY_CHECKS build_disabled \<and>
   unix_rcutils_system_time_now build_disabled 0 (Some 0)
     \<lparr> tv_sec = 9223372037, tv_nsec = 0 \<rparr> world_init
   = (RCUTILS_RET_OK, store_now 0 (9223372037 * 1000000000) world_init) \<and>
   unix_rcutils_steady_time_now build_disabled 0 (Some 0)
     \<lparr> tv_sec = 9223372037, tv_nsec = 0 \<rparr> (ok_check_env 64) world_init
   = (RCUTILS_RET_OK, store_now 0 (9223372037 * 1000000000) world_init) \<and>
   sint (9223372037 * 1000000000 :: int64) = - 9223372036709551616"
proof -
  have d: "RCUTILS_DISABLE_TIME_SANITY_CHECKS build_disabled"
    by (simp add: build_defs)
  have n: "\<not> WOULD_BE_NEGATIVE (tv_sec \<lparr> tv_sec = 9223372037, tv_nsec = 0 \<rparr>)
             (tv_nsec \<lparr> tv_sec = 9223372037, tv_nsec = 0 \<rparr>)"
    by (simp add: WOULD_BE_NEGATIVE_def word_sless_alt)
  show ?thesis
    using disabled_sanity_checks_no_overflow_check
      [of build_disabled 0 "Some 0" "\<lparr> tv_sec = 9223372037, tv_nsec = 0 \<rparr>" world_init
          "ok_check_env 64"] d n
    by (simp add: RCUTILS_S_TO_NS_def)
qed

end
